theory Spec2Isabelle
  imports Main "HOL-Library.AList" "HOL-Library.Log_Nat"
begin

section \<open>Rows of the data source\<close>

text \<open>
  The migrations declare the columns the report reads.  \<open>tickets.status\<close> and
  \<open>tickets.priority\<close> are enum columns without \<open>NOT NULL\<close>, so a row carries one of
  the enum's labels or \<open>null\<close>; \<open>created_at\<close> is nullable as well.  A row as the query
  of \<open>generateTicketReport\<close> selects it has the six plain columns and the two embedded
  profiles \<open>customer\<close> and \<open>assignedTo\<close> (\<open>null\<close> when the reference is unset).
\<close>

datatype ticket_status = Open | InProgress | Resolved | Closed

datatype ticket_priority = Low | Medium | High | Urgent

record profile_ref =
  p_name :: string
  p_email :: string

record ticket =
  t_id :: string
  t_subject :: string
  t_status :: "ticket_status option"
  t_priority :: "ticket_priority option"
  t_created_at :: "string option"
  t_updated_at :: "string option"
  t_customer :: "profile_ref option"
  t_assignedTo :: "profile_ref option"

text \<open>The JSON text of an enum label, which is also the property key it indexes.\<close>

fun status_text :: "ticket_status \<Rightarrow> string" where
  "status_text Open = ''open''"
| "status_text InProgress = ''in-progress''"
| "status_text Resolved = ''resolved''"
| "status_text Closed = ''closed''"

fun priority_text :: "ticket_priority \<Rightarrow> string" where
  "priority_text Low = ''low''"
| "priority_text Medium = ''medium''"
| "priority_text High = ''high''"
| "priority_text Urgent = ''urgent''"

text \<open>
  \<open>acc[ticket.status]\<close> converts the value to a property key: a string is its own key,
  \<open>null\<close> is the key \<open>"null"\<close>.
\<close>

definition status_key :: "ticket_status option \<Rightarrow> string" where
  "status_key s = (case s of None \<Rightarrow> ''null'' | Some l \<Rightarrow> status_text l)"

section \<open>The ticket summary\<close>

text \<open>
  \<open>byStatus\<close> is a JavaScript object built by \<open>reduce\<close> from \<open>{}\<close>: an association
  list in insertion order, where writing an existing key replaces its value in place and
  writing a new key appends it (\<open>AList.update\<close>).  \<open>acc[k] || 0\<close> reads the count, with
  \<open>undefined\<close> and \<open>0\<close> both giving \<open>0\<close>.  None of the five keys is a property of
  \<open>Object.prototype\<close>, so the read sees own properties only.
\<close>

type_synonym counts = "(string \<times> nat) list"

definition count_or_zero :: "counts \<Rightarrow> string \<Rightarrow> nat" where
  "count_or_zero acc k = (case map_of acc k of None \<Rightarrow> 0 | Some n \<Rightarrow> (if n = 0 then 0 else n))"

definition count_status :: "counts \<Rightarrow> ticket \<Rightarrow> counts" where
  "count_status acc tk =
     AList.update (status_key (t_status tk)) (count_or_zero acc (status_key (t_status tk)) + 1) acc"

record ticket_summary =
  ts_total :: nat
  ts_resolved :: nat
  ts_byStatus :: counts
  ts_details :: "ticket list"

text \<open>
  Lines 152 to 164 of \<open>generateTicketReport\<close>.  \<open>rows\<close> is the \<open>data\<close> of the query
  response, \<open>None\<close> for \<open>null\<close>: every \<open>data?.f(...) || d\<close> falls back to \<open>d\<close> then.
\<close>

definition summarizeTickets :: "ticket list option \<Rightarrow> ticket_summary" where
  "summarizeTickets rows =
     \<lparr> ts_total = (case rows of None \<Rightarrow> 0 | Some d \<Rightarrow> length d),
       ts_resolved = (case rows of None \<Rightarrow> 0
                      | Some d \<Rightarrow> length (filter (\<lambda>tk. t_status tk = Some Resolved) d)),
       ts_byStatus = (case rows of None \<Rightarrow> [] | Some d \<Rightarrow> foldl count_status [] d),
       ts_details = (case rows of None \<Rightarrow> [] | Some d \<Rightarrow> d) \<rparr>"

section \<open>Numbers\<close>

text \<open>
  A JavaScript number is an IEEE 754 binary64 value.  The finite ones are modelled by the
  rational they denote; every arithmetic operation returns the exact result rounded to
  the nearest representable value, ties to the even significand (\<open>fl\<close>).  A significand
  has 53 bits, and the exponent of the least bit is at least \<open>-1074\<close>.  Overflow to
  infinity starts at \<open>2^1024\<close>, far above any sum of \<open>decimal(10,2)\<close> amounts over an
  array of rows, and is not modelled.  Row counts are integers below \<open>2^53\<close> and exact.
\<close>

type_synonym number = rat

definition round_half_even :: "rat \<Rightarrow> int" where
  "round_half_even y =
     (let f = \<lfloor>y\<rfloor>; r = y - of_int f in
      if r < 1 / 2 then f else if 1 / 2 < r then f + 1 else if even f then f else f + 1)"

text \<open>\<open>ilog2 y\<close> is the integer \<open>k\<close> with \<open>2^k \<le> y < 2^(k+1)\<close>, for \<open>0 < y\<close>.\<close>

definition ilog2 :: "rat \<Rightarrow> int" where
  "ilog2 y = (if 1 \<le> y then bitlen \<lfloor>y\<rfloor> - 1 else - bitlen (\<lceil>1 / y\<rceil> - 1))"

definition fl :: "rat \<Rightarrow> number" where
  "fl x = (if x = 0 then 0
           else let e = max (ilog2 \<bar>x\<bar> - 52) (- 1074)
                in of_int (round_half_even (x / 2 powi e)) * 2 powi e)"

definition num_add :: "number \<Rightarrow> number \<Rightarrow> number" where
  "num_add a b = fl (a + b)"

definition num_mul :: "number \<Rightarrow> number \<Rightarrow> number" where
  "num_mul a b = fl (a * b)"

definition num_div :: "number \<Rightarrow> number \<Rightarrow> number" where
  "num_div a b = fl (a / b)"

text \<open>
  \<open>Math.round\<close> returns the integer closest to its argument, and of two equally close
  integers the one towards \<open>+\<infinity>\<close>.
\<close>

definition math_round :: "number \<Rightarrow> int" where
  "math_round x = \<lfloor>x + 1 / 2\<rfloor>"

section \<open>The contact, deal and appointment summaries\<close>

datatype contact_status = ContactLead | Prospect | Customer | Churned

datatype deal_stage = DealLead | Qualified | Proposal | Negotiation | ClosedWon | ClosedLost

datatype appointment_status = Scheduled | Confirmed | Completed | Cancelled

fun contact_status_text :: "contact_status \<Rightarrow> string" where
  "contact_status_text ContactLead = ''lead''"
| "contact_status_text Prospect = ''prospect''"
| "contact_status_text Customer = ''customer''"
| "contact_status_text Churned = ''churned''"

text \<open>
  The three queries select \<open>*\<close>.  The records keep the columns the report reads or
  filters on and the identifying ones; the remaining columns travel with the row
  untouched and are left out.  \<open>d_amount\<close> is the column \<open>value\<close> as the JSON number the
  row carries (\<open>None\<close> for \<open>null\<close> or a missing field); \<open>d_contact\<close> is the embedded
  \<open>contact:contacts(name, company)\<close>.
\<close>

record contact =
  c_id :: string
  c_name :: string
  c_email :: string
  c_company :: string
  c_status :: "contact_status option"
  c_created_by :: string
  c_created_at :: "string option"

record contact_ref =
  cr_name :: string
  cr_company :: string

record deal =
  d_id :: string
  d_title :: string
  d_amount :: "number option"
  d_stage :: "deal_stage option"
  d_contact_id :: string
  d_created_by :: string
  d_created_at :: "string option"
  d_contact :: "contact_ref option"

record appointment =
  a_id :: string
  a_title :: string
  a_start_time :: string
  a_end_time :: string
  a_status :: "appointment_status option"
  a_created_by :: string

definition contact_status_key :: "contact_status option \<Rightarrow> string" where
  "contact_status_key s = (case s of None \<Rightarrow> ''null'' | Some l \<Rightarrow> contact_status_text l)"

definition count_contact_status :: "counts \<Rightarrow> contact \<Rightarrow> counts" where
  "count_contact_status acc ct =
     AList.update (contact_status_key (c_status ct))
       (count_or_zero acc (contact_status_key (c_status ct)) + 1) acc"

record contact_summary =
  cs_new :: nat
  cs_byStatus :: counts
  cs_details :: "contact list"

definition summarizeContacts :: "contact list option \<Rightarrow> contact_summary" where
  "summarizeContacts rows =
     \<lparr> cs_new = (case rows of None \<Rightarrow> 0 | Some d \<Rightarrow> length d),
       cs_byStatus = (case rows of None \<Rightarrow> [] | Some d \<Rightarrow> foldl count_contact_status [] d),
       cs_details = (case rows of None \<Rightarrow> [] | Some d \<Rightarrow> d) \<rparr>"

record deal_summary =
  ds_total :: nat
  ds_revenue :: number
  ds_won :: nat
  ds_lost :: nat
  ds_conversionRate :: int
  ds_details :: "deal list"

text \<open>\<open>deal.value || 0\<close>: \<open>null\<close>, a missing field and \<open>0\<close> all give \<open>0\<close>.\<close>

definition amount_or_zero :: "deal \<Rightarrow> number" where
  "amount_or_zero dl = (case d_amount dl of None \<Rightarrow> 0 | Some v \<Rightarrow> (if v = 0 then 0 else v))"

text \<open>
  \<open>total > 0 ? Math.round((part / total) * 100) : 0\<close>, the expression of both
  \<open>conversionRate\<close> and \<open>completionRate\<close>: a division and a multiplication of numbers,
  each rounded to binary64, then \<open>Math.round\<close>.
\<close>

definition percentage :: "nat \<Rightarrow> nat \<Rightarrow> int" where
  "percentage part tot =
     (if 0 < tot then math_round (num_mul (num_div (of_nat part) (of_nat tot)) 100) else 0)"

text \<open>Lines 209 to 221 of \<open>generateDealReport\<close>.\<close>

definition summarizeDeals :: "deal list option \<Rightarrow> deal_summary" where
  "summarizeDeals rows =
     (let tot = (case rows of None \<Rightarrow> 0 | Some d \<Rightarrow> length d);
          revenue = (case rows of None \<Rightarrow> 0
                     | Some d \<Rightarrow>
                         (let r = foldl (\<lambda>sum dl. num_add sum (amount_or_zero dl)) 0 d
                          in if r = 0 then 0 else r));
          won = (case rows of None \<Rightarrow> 0
                 | Some d \<Rightarrow> length (filter (\<lambda>dl. d_stage dl = Some ClosedWon) d));
          lost = (case rows of None \<Rightarrow> 0
                  | Some d \<Rightarrow> length (filter (\<lambda>dl. d_stage dl = Some ClosedLost) d))
      in \<lparr> ds_total = tot, ds_revenue = revenue, ds_won = won, ds_lost = lost,
           ds_conversionRate = percentage won tot,
           ds_details = (case rows of None \<Rightarrow> [] | Some d \<Rightarrow> d) \<rparr>)"

record appointment_summary =
  as_total :: nat
  as_completed :: nat
  as_cancelled :: nat
  as_completionRate :: int
  as_details :: "appointment list"

definition summarizeAppointments :: "appointment list option \<Rightarrow> appointment_summary" where
  "summarizeAppointments rows =
     (let tot = (case rows of None \<Rightarrow> 0 | Some d \<Rightarrow> length d);
          completed = (case rows of None \<Rightarrow> 0
                       | Some d \<Rightarrow> length (filter (\<lambda>ap. a_status ap = Some Completed) d));
          cancelled = (case rows of None \<Rightarrow> 0
                       | Some d \<Rightarrow> length (filter (\<lambda>ap. a_status ap = Some Cancelled) d))
      in \<lparr> as_total = tot, as_completed = completed, as_cancelled = cancelled,
           as_completionRate = percentage completed tot,
           as_details = (case rows of None \<Rightarrow> [] | Some d \<Rightarrow> d) \<rparr>)"

section \<open>The data source\<close>

text \<open>
  The store is an external collaborator.  It holds the tables, compares two timestamps
  (\<open>st_le a b\<close>: \<open>a\<close> is not later than \<open>b\<close>), and answers a request for an
  entity and a list of filters with an error or with the matching rows.  Whether a
  request fails is the store's business (\<open>st_fault\<close>): it may depend on the entity and
  on the filters sent.
\<close>

datatype entity = Tickets | Contacts | Deals | Appointments

record pg_error =
  pe_message :: string
  pe_code :: string

text \<open>
  The filters the query builder sends: \<open>.gte(column, v)\<close>, \<open>.lte(column, v)\<close>,
  \<open>.eq(column, v)\<close> and \<open>.or(text)\<close>.  The argument of \<open>.or\<close> is a string in the
  filter syntax of the store, sent as it is.
\<close>

datatype filter_clause =
    Gte string string
  | Lte string string
  | Eq string string
  | OrText string

text \<open>The pieces of a string between the occurrences of a separator.\<close>

fun split_at :: "char \<Rightarrow> string \<Rightarrow> string list" where
  "split_at sep [] = [[]]"
| "split_at sep (c # cs) =
     (if c = sep then [] # split_at sep cs
      else (case split_at sep cs of [] \<Rightarrow> [[c]] | w # ws \<Rightarrow> (c # w) # ws))"

text \<open>
  The text of \<open>.or\<close> is a list of conditions separated by commas, each of the form
  \<open>column.eq.value\<close>, and it holds of a row when one of the conditions does.  This is
  how the store reads a text whose values have none of the characters that its syntax
  reserves for grouping, quoting and separating (\<open>reserved_chars\<close>); a value with such
  a character changes what the text spells, as a comma does in this reading.
\<close>

definition condition_of :: "string \<Rightarrow> (string \<times> string) option" where
  "condition_of t =
     (let k = takeWhile (\<lambda>c. c \<noteq> CHR ''.'') t; r = dropWhile (\<lambda>c. c \<noteq> CHR ''.'') t
      in if take 4 r = ''.eq.'' then Some (k, drop 4 r) else None)"

definition reserved_chars :: "char list" where
  "reserved_chars = [CHR '','', CHR ''.'', CHR '':'', CHR ''('', CHR '')'', CHR 0x22, CHR 0x5C]"

definition plain_id :: "string \<Rightarrow> bool" where
  "plain_id u = (u \<noteq> [] \<and> list_all (\<lambda>c. c \<notin> set reserved_chars) u)"

text \<open>
  A row of the \<open>tickets\<close> table has the foreign keys the selected row lacks; the
  embedded profiles are looked up in \<open>profiles\<close> by them.
\<close>

record profile =
  pr_id :: string
  pr_name :: string
  pr_email :: string

record ticket_row =
  tr_id :: string
  tr_subject :: string
  tr_message :: string
  tr_status :: "ticket_status option"
  tr_priority :: "ticket_priority option"
  tr_customer_id :: string
  tr_assigned_to :: "string option"
  tr_created_at :: "string option"
  tr_updated_at :: "string option"

record store =
  st_profiles :: "profile list"
  st_tickets :: "ticket_row list"
  st_contacts :: "contact list"
  st_deals :: "deal list"
  st_appointments :: "appointment list"
  st_le :: "string \<Rightarrow> string \<Rightarrow> bool"
  st_fault :: "entity \<Rightarrow> filter_clause list \<Rightarrow> pg_error option"

text \<open>The columns of each table by name, \<open>None\<close> for \<open>NULL\<close> or an unknown column.\<close>

definition ticket_column :: "ticket_row \<Rightarrow> string \<Rightarrow> string option" where
  "ticket_column r k =
     (if k = ''id'' then Some (tr_id r)
      else if k = ''subject'' then Some (tr_subject r)
      else if k = ''message'' then Some (tr_message r)
      else if k = ''status'' then map_option status_text (tr_status r)
      else if k = ''priority'' then map_option priority_text (tr_priority r)
      else if k = ''customer_id'' then Some (tr_customer_id r)
      else if k = ''assigned_to'' then tr_assigned_to r
      else if k = ''created_at'' then tr_created_at r
      else if k = ''updated_at'' then tr_updated_at r
      else None)"

definition contact_column :: "contact \<Rightarrow> string \<Rightarrow> string option" where
  "contact_column r k =
     (if k = ''id'' then Some (c_id r)
      else if k = ''name'' then Some (c_name r)
      else if k = ''email'' then Some (c_email r)
      else if k = ''company'' then Some (c_company r)
      else if k = ''status'' then map_option contact_status_text (c_status r)
      else if k = ''created_by'' then Some (c_created_by r)
      else if k = ''created_at'' then c_created_at r
      else None)"

definition deal_column :: "deal \<Rightarrow> string \<Rightarrow> string option" where
  "deal_column r k =
     (if k = ''id'' then Some (d_id r)
      else if k = ''title'' then Some (d_title r)
      else if k = ''contact_id'' then Some (d_contact_id r)
      else if k = ''created_by'' then Some (d_created_by r)
      else if k = ''created_at'' then d_created_at r
      else None)"

definition appointment_column :: "appointment \<Rightarrow> string \<Rightarrow> string option" where
  "appointment_column r k =
     (if k = ''id'' then Some (a_id r)
      else if k = ''title'' then Some (a_title r)
      else if k = ''start_time'' then Some (a_start_time r)
      else if k = ''end_time'' then Some (a_end_time r)
      else if k = ''created_by'' then Some (a_created_by r)
      else None)"

text \<open>
  A clause holds of a row as in SQL: a comparison with \<open>NULL\<close> is not true.  \<open>le\<close>
  orders the timestamps that \<open>gte\<close> and \<open>lte\<close> compare.
\<close>

fun holds :: "(string \<Rightarrow> string \<Rightarrow> bool) \<Rightarrow> (string \<Rightarrow> string option) \<Rightarrow> filter_clause \<Rightarrow> bool" where
  "holds le col (Gte k v) = (case col k of None \<Rightarrow> False | Some x \<Rightarrow> le v x)"
| "holds le col (Lte k v) = (case col k of None \<Rightarrow> False | Some x \<Rightarrow> le x v)"
| "holds le col (Eq k v) = (col k = Some v)"
| "holds le col (OrText t) =
     list_ex (\<lambda>c. case condition_of c of None \<Rightarrow> False | Some (k, v) \<Rightarrow> col k = Some v)
       (split_at (CHR '','') t)"

definition matching :: "(string \<Rightarrow> string \<Rightarrow> bool) \<Rightarrow> ('r \<Rightarrow> string \<Rightarrow> string option) \<Rightarrow>
    filter_clause list \<Rightarrow> 'r list \<Rightarrow> 'r list" where
  "matching le col fs rows = filter (\<lambda>r. list_all (holds le (col r)) fs) rows"

definition embed_profile :: "profile list \<Rightarrow> string option \<Rightarrow> profile_ref option" where
  "embed_profile ps ref =
     (case ref of None \<Rightarrow> None
      | Some i \<Rightarrow> map_option (\<lambda>p. \<lparr> p_name = pr_name p, p_email = pr_email p \<rparr>)
                   (find (\<lambda>p. pr_id p = i) ps))"

definition select_ticket :: "profile list \<Rightarrow> ticket_row \<Rightarrow> ticket" where
  "select_ticket ps r =
     \<lparr> t_id = tr_id r, t_subject = tr_subject r, t_status = tr_status r,
       t_priority = tr_priority r, t_created_at = tr_created_at r,
       t_updated_at = tr_updated_at r,
       t_customer = embed_profile ps (Some (tr_customer_id r)),
       t_assignedTo = embed_profile ps (tr_assigned_to r) \<rparr>"

text \<open>The answer \<open>{ data, error }\<close> of an awaited query.\<close>

record 'r response =
  rs_data :: "'r list option"
  rs_error :: "pg_error option"

definition answer :: "store \<Rightarrow> entity \<Rightarrow> filter_clause list \<Rightarrow> 'r list \<Rightarrow> 'r response" where
  "answer st en fs rows =
     (case st_fault st en fs of
        Some e \<Rightarrow> \<lparr> rs_data = None, rs_error = Some e \<rparr>
      | None \<Rightarrow> \<lparr> rs_data = Some rows, rs_error = None \<rparr>)"

definition query_tickets :: "store \<Rightarrow> filter_clause list \<Rightarrow> ticket response" where
  "query_tickets st fs =
     answer st Tickets fs
       (map (select_ticket (st_profiles st)) (matching (st_le st) ticket_column fs (st_tickets st)))"

definition query_contacts :: "store \<Rightarrow> filter_clause list \<Rightarrow> contact response" where
  "query_contacts st fs =
     answer st Contacts fs (matching (st_le st) contact_column fs (st_contacts st))"

definition query_deals :: "store \<Rightarrow> filter_clause list \<Rightarrow> deal response" where
  "query_deals st fs = answer st Deals fs (matching (st_le st) deal_column fs (st_deals st))"

definition query_appointments :: "store \<Rightarrow> filter_clause list \<Rightarrow> appointment response" where
  "query_appointments st fs =
     answer st Appointments fs (matching (st_le st) appointment_column fs (st_appointments st))"

section \<open>The four aggregators\<close>

text \<open>
  \<open>if (v) query = query.f(column, v)\<close>: the clause is added when \<open>v\<close> is truthy, that
  is, present and not the empty string.  The text of \<open>.or\<close> is built by interpolating
  \<open>userId\<close> twice, unescaped.
\<close>

definition when_set :: "string option \<Rightarrow> (string \<Rightarrow> filter_clause) \<Rightarrow> filter_clause list" where
  "when_set v f = (case v of None \<Rightarrow> [] | Some s \<Rightarrow> (if s = [] then [] else [f s]))"

definition actor_or_text :: "string \<Rightarrow> string" where
  "actor_or_text userId = ''customer_id.eq.'' @ userId @ '',assigned_to.eq.'' @ userId"

definition ticket_filters :: "string option \<Rightarrow> string option \<Rightarrow> string option \<Rightarrow> filter_clause list" where
  "ticket_filters startDate endDate userId =
     when_set startDate (Gte ''created_at'')
     @ when_set endDate (Lte ''created_at'')
     @ when_set userId (\<lambda>u. OrText (actor_or_text u))"

definition created_filters :: "string option \<Rightarrow> string option \<Rightarrow> string option \<Rightarrow> filter_clause list" where
  "created_filters startDate endDate userId =
     when_set startDate (Gte ''created_at'')
     @ when_set endDate (Lte ''created_at'')
     @ when_set userId (Eq ''created_by'')"

definition appointment_filters :: "string option \<Rightarrow> string option \<Rightarrow> string option \<Rightarrow> filter_clause list" where
  "appointment_filters startDate endDate userId =
     when_set startDate (Gte ''start_time'')
     @ when_set endDate (Lte ''start_time'')
     @ when_set userId (Eq ''created_by'')"

text \<open>\<open>if (error) throw error\<close>, then the summary of \<open>data\<close>.\<close>

definition generateTicketReport ::
    "store \<Rightarrow> string option \<Rightarrow> string option \<Rightarrow> string option \<Rightarrow> pg_error + ticket_summary" where
  "generateTicketReport st startDate endDate userId =
     (let r = query_tickets st (ticket_filters startDate endDate userId)
      in case rs_error r of Some e \<Rightarrow> Inl e | None \<Rightarrow> Inr (summarizeTickets (rs_data r)))"

definition generateContactReport ::
    "store \<Rightarrow> string option \<Rightarrow> string option \<Rightarrow> string option \<Rightarrow> pg_error + contact_summary" where
  "generateContactReport st startDate endDate userId =
     (let r = query_contacts st (created_filters startDate endDate userId)
      in case rs_error r of Some e \<Rightarrow> Inl e | None \<Rightarrow> Inr (summarizeContacts (rs_data r)))"

definition generateDealReport ::
    "store \<Rightarrow> string option \<Rightarrow> string option \<Rightarrow> string option \<Rightarrow> pg_error + deal_summary" where
  "generateDealReport st startDate endDate userId =
     (let r = query_deals st (created_filters startDate endDate userId)
      in case rs_error r of Some e \<Rightarrow> Inl e | None \<Rightarrow> Inr (summarizeDeals (rs_data r)))"

definition generateAppointmentReport ::
    "store \<Rightarrow> string option \<Rightarrow> string option \<Rightarrow> string option \<Rightarrow> pg_error + appointment_summary" where
  "generateAppointmentReport st startDate endDate userId =
     (let r = query_appointments st (appointment_filters startDate endDate userId)
      in case rs_error r of Some e \<Rightarrow> Inl e | None \<Rightarrow> Inr (summarizeAppointments (rs_data r)))"

section \<open>Dates\<close>

text \<open>
  A \<open>Date\<close> holds a time value: milliseconds since 1970-01-01T00:00:00Z.  The functions
  below are the ones the language standard defines a \<open>Date\<close> by (\<open>Day\<close>, \<open>DayFromYear\<close>,
  \<open>YearFromTime\<close>, \<open>MonthFromTime\<close>, \<open>DateFromTime\<close>, \<open>MakeDay\<close>, \<open>MakeTime\<close>,
  \<open>MakeDate\<close>), on integers; \<open>div\<close> and \<open>mod\<close> on \<open>int\<close> round towards minus infinity, as
  \<open>floor\<close> and the standard's modulo do.  Months count from 0.
\<close>

definition msPerDay :: int where
  "msPerDay = 86400000"

definition Day :: "int \<Rightarrow> int" where
  "Day t = t div msPerDay"

definition TimeWithinDay :: "int \<Rightarrow> int" where
  "TimeWithinDay t = t mod msPerDay"

definition DaysInYear :: "int \<Rightarrow> int" where
  "DaysInYear y =
     (if y mod 4 \<noteq> 0 then 365 else if y mod 100 \<noteq> 0 then 366
      else if y mod 400 \<noteq> 0 then 365 else 366)"

definition DayFromYear :: "int \<Rightarrow> int" where
  "DayFromYear y =
     365 * (y - 1970) + (y - 1969) div 4 - (y - 1901) div 100 + (y - 1601) div 400"

text \<open>
  \<open>YearFromDay d\<close> is the year the day \<open>d\<close> falls in: the largest \<open>y\<close> with
  \<open>DayFromYear y \<le> d\<close>.  It is computed from the mean length of a year, which is off by
  at most one year, and corrected.
\<close>

definition YearFromDay :: "int \<Rightarrow> int" where
  "YearFromDay d =
     (let y = 1970 + (d * 400) div 146097
      in if d < DayFromYear y then y - 1
         else if DayFromYear (y + 1) \<le> d then y + 1
         else y)"

definition InLeapYear :: "int \<Rightarrow> int" where
  "InLeapYear y = (if DaysInYear y = 366 then 1 else 0)"

text \<open>The day of the year (from 0) on which month \<open>m\<close> starts; \<open>l\<close> is 1 in a leap year.\<close>

definition month_start :: "int \<Rightarrow> int \<Rightarrow> int" where
  "month_start l m =
     (if m = 0 then 0 else if m = 1 then 31 else if m = 2 then 59 + l
      else if m = 3 then 90 + l else if m = 4 then 120 + l else if m = 5 then 151 + l
      else if m = 6 then 181 + l else if m = 7 then 212 + l else if m = 8 then 243 + l
      else if m = 9 then 273 + l else if m = 10 then 304 + l else if m = 11 then 334 + l
      else 365 + l)"

definition YearFromTime :: "int \<Rightarrow> int" where
  "YearFromTime t = YearFromDay (Day t)"

definition DayWithinYear :: "int \<Rightarrow> int" where
  "DayWithinYear t = Day t - DayFromYear (YearFromTime t)"

definition MonthFromTime :: "int \<Rightarrow> int" where
  "MonthFromTime t =
     (let d = DayWithinYear t; l = InLeapYear (YearFromTime t)
      in if d < month_start l 1 then 0 else if d < month_start l 2 then 1
         else if d < month_start l 3 then 2 else if d < month_start l 4 then 3
         else if d < month_start l 5 then 4 else if d < month_start l 6 then 5
         else if d < month_start l 7 then 6 else if d < month_start l 8 then 7
         else if d < month_start l 9 then 8 else if d < month_start l 10 then 9
         else if d < month_start l 11 then 10 else 11)"

definition DateFromTime :: "int \<Rightarrow> int" where
  "DateFromTime t =
     DayWithinYear t - month_start (InLeapYear (YearFromTime t)) (MonthFromTime t) + 1"

definition MakeDay :: "int \<Rightarrow> int \<Rightarrow> int \<Rightarrow> int" where
  "MakeDay yr mon dt =
     (let ym = yr + mon div 12; mn = mon mod 12
      in DayFromYear ym + month_start (InLeapYear ym) mn + dt - 1)"

definition MakeTime :: "int \<Rightarrow> int \<Rightarrow> int \<Rightarrow> int \<Rightarrow> int" where
  "MakeTime h m sec ms = h * 3600000 + m * 60000 + sec * 1000 + ms"

definition MakeDate :: "int \<Rightarrow> int \<Rightarrow> int" where
  "MakeDate dy tm = dy * msPerDay + tm"

text \<open>
  The zone of the runtime gives the offset of local time from UTC, in milliseconds: the
  offset in force at a time value (\<open>LocalTZA(t, true)\<close> of the standard), and the
  offset to take for a local time (\<open>LocalTZA(t, false)\<close>).  With daylight saving the
  offset changes over the year, so the two are functions.  An edge runtime keeps UTC.
\<close>

record zone =
  z_at_utc :: "int \<Rightarrow> int"
  z_at_local :: "int \<Rightarrow> int"

definition utc :: zone where
  "utc = \<lparr> z_at_utc = (\<lambda>t. 0), z_at_local = (\<lambda>t. 0) \<rparr>"

definition LocalTime :: "zone \<Rightarrow> int \<Rightarrow> int" where
  "LocalTime zn t = t + z_at_utc zn t"

definition UTC :: "zone \<Rightarrow> int \<Rightarrow> int" where
  "UTC zn t = t - z_at_local zn t"

text \<open>
  \<open>new Date(y, m, d)\<close> is local midnight of the day \<open>MakeDay\<close> gives, with the offset
  of that day; a year from 0 to 99 means 1900 plus it.  \<open>getFullYear\<close>, \<open>getMonth\<close> and
  \<open>getDate\<close> read local time.
\<close>

definition new_Date :: "zone \<Rightarrow> int \<Rightarrow> int \<Rightarrow> int \<Rightarrow> int" where
  "new_Date zn y m d =
     (let yr = (if 0 \<le> y \<and> y \<le> 99 then 1900 + y else y)
      in UTC zn (MakeDate (MakeDay yr m d) (MakeTime 0 0 0 0)))"

definition getFullYear :: "zone \<Rightarrow> int \<Rightarrow> int" where
  "getFullYear zn t = YearFromTime (LocalTime zn t)"

definition getMonth :: "zone \<Rightarrow> int \<Rightarrow> int" where
  "getMonth zn t = MonthFromTime (LocalTime zn t)"

definition getDate :: "zone \<Rightarrow> int \<Rightarrow> int" where
  "getDate zn t = DateFromTime (LocalTime zn t)"

text \<open>Decimal digits: of a fixed width, and of a natural number as it prints.\<close>

definition digit :: "nat \<Rightarrow> char" where
  "digit n = ''0123456789'' ! (n mod 10)"

fun pad :: "nat \<Rightarrow> nat \<Rightarrow> string" where
  "pad 0 n = []"
| "pad (Suc k) n = pad k (n div 10) @ [digit n]"

fun nat_text :: "nat \<Rightarrow> string" where
  "nat_text n = (if n < 10 then [digit n] else nat_text (n div 10) @ [digit n])"

definition int_text :: "int \<Rightarrow> string" where
  "int_text i = (if i < 0 then ''-'' @ nat_text (nat (- i)) else nat_text (nat i))"

text \<open>
  \<open>toISOString\<close>: \<open>YYYY-MM-DDTHH:mm:ss.sssZ\<close> in UTC, the year with a sign and six digits
  outside 0 to 9999.
\<close>

definition iso_year :: "int \<Rightarrow> string" where
  "iso_year y =
     (if 0 \<le> y \<and> y \<le> 9999 then pad 4 (nat y)
      else (if y < 0 then ''-'' else ''+'') @ pad 6 (nat \<bar>y\<bar>))"

definition toISOString :: "int \<Rightarrow> string" where
  "toISOString t =
     (let w = TimeWithinDay t
      in iso_year (YearFromTime t) @ ''-'' @ pad 2 (nat (MonthFromTime t + 1)) @ ''-''
         @ pad 2 (nat (DateFromTime t)) @ ''T'' @ pad 2 (nat (w div 3600000)) @ '':''
         @ pad 2 (nat (w div 60000 mod 60)) @ '':'' @ pad 2 (nat (w div 1000 mod 60)) @ ''.''
         @ pad 3 (nat (w mod 1000)) @ ''Z'')"

section \<open>The report handler\<close>

text \<open>The request body after \<open>req.json()\<close>; \<open>None\<close> is a field the body does not have.\<close>

record report_request =
  rq_type :: "string option"
  rq_startDate :: "string option"
  rq_endDate :: "string option"
  rq_userId :: "string option"
  rq_format :: "string option"

text \<open>
  Lines 31 to 44: the window of the report.  \<open>now\<close> is the one clock reading the
  branch takes.
\<close>

definition weekAgo :: "int \<Rightarrow> int" where
  "weekAgo now = now - 7 * 24 * 60 * 60 * 1000"

definition monthAgo :: "zone \<Rightarrow> int \<Rightarrow> int" where
  "monthAgo zn now = new_Date zn (getFullYear zn now) (getMonth zn now - 1) (getDate zn now)"

definition resolve_window ::
    "zone \<Rightarrow> int \<Rightarrow> string option \<Rightarrow> string option \<Rightarrow> string option \<Rightarrow> string option \<times> string option" where
  "resolve_window zn now ty startDate endDate =
     (if ty = Some ''weekly'' then (Some (toISOString (weekAgo now)), Some (toISOString now))
      else if ty = Some ''monthly'' then
        (Some (toISOString (monthAgo zn now)), Some (toISOString now))
      else (startDate, endDate))"

record report_meta =
  m_type :: "string option"
  m_startDate :: "string option"
  m_endDate :: "string option"
  m_generatedAt :: string
  m_userId :: "string option"

record report_totals =
  totalTickets :: nat
  resolvedTickets :: nat
  newContacts :: nat
  totalRevenue :: number
  appointmentsHeld :: nat

record report =
  r_meta :: report_meta
  r_summary :: report_totals
  r_tickets :: ticket_summary
  r_contacts :: contact_summary
  r_deals :: deal_summary
  r_appointments :: appointment_summary

subsection \<open>The tabular serialization\<close>

text \<open>
  A template literal prints \<open>undefined\<close> and \<open>null\<close> by name.  \<open>x?.name || ''\<close> is the
  empty string when the embedded profile is \<open>null\<close> or its name is empty.
\<close>

definition undefined_or :: "string option \<Rightarrow> string" where
  "undefined_or v = (case v of None \<Rightarrow> ''undefined'' | Some s \<Rightarrow> s)"

definition null_or :: "string option \<Rightarrow> string" where
  "null_or v = (case v of None \<Rightarrow> ''null'' | Some s \<Rightarrow> s)"

definition name_or_empty :: "profile_ref option \<Rightarrow> string" where
  "name_or_empty p = (case p of None \<Rightarrow> [] | Some q \<Rightarrow> (if p_name q = [] then [] else p_name q))"

definition ticket_line :: "ticket \<Rightarrow> string" where
  "ticket_line tk =
     t_id tk @ '','' @ t_subject tk @ '','' @ null_or (map_option status_text (t_status tk))
     @ '','' @ null_or (map_option priority_text (t_priority tk)) @ '',''
     @ null_or (t_created_at tk) @ '','' @ name_or_empty (t_customer tk) @ '',''
     @ name_or_empty (t_assignedTo tk)"

text \<open>\<open>lines.join('\n')\<close>: the lines with a line feed between neighbours.\<close>

fun join_lines :: "string list \<Rightarrow> string" where
  "join_lines [] = []"
| "join_lines [l] = l"
| "join_lines (l # m # ls) = l @ [CHR 0x0A] @ join_lines (m # ls)"




text \<open>
  The fifteen lines the array literal holds.  \<open>num_text\<close> is how the runtime prints a
  number that need not be an integer (the revenue); counts print in decimal.
\<close>

definition summary_lines :: "(number \<Rightarrow> string) \<Rightarrow> report \<Rightarrow> string list" where
  "summary_lines num_text rp =
     [''Report Summary'',
      ''Type,'' @ undefined_or (m_type (r_meta rp)),
      ''Generated At,'' @ m_generatedAt (r_meta rp),
      ''Start Date,'' @ undefined_or (m_startDate (r_meta rp)),
      ''End Date,'' @ undefined_or (m_endDate (r_meta rp)),
      [],
      ''Key Metrics'',
      ''Total Tickets,'' @ nat_text (totalTickets (r_summary rp)),
      ''Resolved Tickets,'' @ nat_text (resolvedTickets (r_summary rp)),
      ''New Contacts,'' @ nat_text (newContacts (r_summary rp)),
      ''Total Revenue,$'' @ num_text (totalRevenue (r_summary rp)),
      ''Appointments Held,'' @ nat_text (appointmentsHeld (r_summary rp)),
      [],
      ''Ticket Details'',
      ''ID,Subject,Status,Priority,Created At,Customer,Assigned To'']"

text \<open>\<open>forEach\<close> pushes one line per ticket of \<open>report.tickets.details\<close>.\<close>

definition generateCsvReport :: "(number \<Rightarrow> string) \<Rightarrow> report \<Rightarrow> string" where
  "generateCsvReport num_text rp =
     join_lines (foldl (\<lambda>ls tk. ls @ [ticket_line tk]) (summary_lines num_text rp)
                   (ts_details (r_tickets rp)))"

subsection \<open>The fan-out and the responses\<close>

text \<open>
  \<open>Promise.all\<close> over the four aggregator calls fulfils with the four results when all
  fulfil, and rejects with the reason of the promise that rejects first.  Which one is
  first depends on when the store answers: \<open>rank\<close> gives each entity the position of
  its answer in time, and of two equal ranks the earlier array element wins.
\<close>

definition earliest :: "(entity \<Rightarrow> nat) \<Rightarrow> entity \<times> pg_error \<Rightarrow> (entity \<times> pg_error) list \<Rightarrow> pg_error" where
  "earliest rank p ps = snd (foldl (\<lambda>best q. if rank (fst q) < rank (fst best) then q else best) p ps)"

definition rejected :: "entity \<Rightarrow> pg_error + 'a \<Rightarrow> (entity \<times> pg_error) list" where
  "rejected en r = (case r of Inl e \<Rightarrow> [(en, e)] | Inr v \<Rightarrow> [])"

definition promise_all ::
    "(entity \<Rightarrow> nat) \<Rightarrow> pg_error + 'a \<Rightarrow> pg_error + 'b \<Rightarrow> pg_error + 'c \<Rightarrow> pg_error + 'd \<Rightarrow>
     pg_error + ('a \<times> 'b \<times> 'c \<times> 'd)" where
  "promise_all rank a b c d =
     (case rejected Tickets a @ rejected Contacts b @ rejected Deals c @ rejected Appointments d of
        p # ps \<Rightarrow> Inl (earliest rank p ps)
      | [] \<Rightarrow>
          (case a of Inl e \<Rightarrow> Inl e | Inr x \<Rightarrow>
          (case b of Inl e \<Rightarrow> Inl e | Inr y \<Rightarrow>
          (case c of Inl e \<Rightarrow> Inl e | Inr z \<Rightarrow>
          (case d of Inl e \<Rightarrow> Inl e | Inr w \<Rightarrow> Inr (x, y, z, w))))))"

text \<open>
  The clock readings of one request: the zone, \<open>new Date()\<close> of the window,
  \<open>new Date()\<close> of \<open>generatedAt\<close>, and \<open>Date.now()\<close> of the file name.
\<close>

record clock =
  ck_zone :: zone
  ck_window :: int
  ck_generated :: int
  ck_stamp :: int

text \<open>
  What the handler returns: \<open>ok\<close> to a pre-flight; the report as JSON; the report with
  the note of the \<open>pdf\<close> format; the tabular text and its file name; or the status 500
  with the body \<open>{ error: message }\<close>.
\<close>

datatype http_response =
    Preflight
  | JsonReport report
  | PdfReport report string
  | CsvReport string string
  | Failure string

datatype thrown = BodyError string | QueryError pg_error

definition message_of :: "thrown \<Rightarrow> string" where
  "message_of x = (case x of BodyError m \<Rightarrow> m | QueryError e \<Rightarrow> pe_message e)"

text \<open>
  Lines 28 to 112, the body of \<open>try\<close> once the request is parsed; a thrown error is
  \<open>Inl\<close>.
\<close>

definition build_report ::
    "(number \<Rightarrow> string) \<Rightarrow> clock \<Rightarrow> (entity \<Rightarrow> nat) \<Rightarrow> store \<Rightarrow> report_request \<Rightarrow> thrown + http_response" where
  "build_report num_text ck rank st rq =
     (let fmt = (case rq_format rq of None \<Rightarrow> ''json'' | Some f \<Rightarrow> f);
          (reportStartDate, reportEndDate) =
             resolve_window (ck_zone ck) (ck_window ck) (rq_type rq) (rq_startDate rq) (rq_endDate rq)
      in case promise_all rank
                (generateTicketReport st reportStartDate reportEndDate (rq_userId rq))
                (generateContactReport st reportStartDate reportEndDate (rq_userId rq))
                (generateDealReport st reportStartDate reportEndDate (rq_userId rq))
                (generateAppointmentReport st reportStartDate reportEndDate (rq_userId rq)) of
           Inl e \<Rightarrow> Inl (QueryError e)
         | Inr (ticketsData, contactsData, dealsData, appointmentsData) \<Rightarrow>
             (let rp = \<lparr> r_meta = \<lparr> m_type = rq_type rq, m_startDate = reportStartDate,
                                     m_endDate = reportEndDate,
                                     m_generatedAt = toISOString (ck_generated ck),
                                     m_userId = rq_userId rq \<rparr>,
                          r_summary = \<lparr> totalTickets = ts_total ticketsData,
                                        resolvedTickets = ts_resolved ticketsData,
                                        newContacts = cs_new contactsData,
                                        totalRevenue = ds_revenue dealsData,
                                        appointmentsHeld = as_completed appointmentsData \<rparr>,
                          r_tickets = ticketsData, r_contacts = contactsData,
                          r_deals = dealsData, r_appointments = appointmentsData \<rparr>
              in if fmt = ''csv'' then
                   Inr (CsvReport (generateCsvReport num_text rp)
                          (''report-'' @ undefined_or (rq_type rq) @ ''-''
                           @ int_text (ck_stamp ck) @ ''.csv''))
                 else if fmt = ''pdf'' then
                   Inr (PdfReport rp
                          ''PDF generation not implemented in demo. Use JSON or CSV format.'')
                 else Inr (JsonReport rp)))"

text \<open>
  The handler: the pre-flight, then \<open>try\<close> and \<open>catch\<close>.  \<open>body\<close> is what
  \<open>req.json()\<close> gives: the parsed request, or \<open>Inl\<close> the message of the error it throws.
\<close>

definition serve_report ::
    "(number \<Rightarrow> string) \<Rightarrow> clock \<Rightarrow> (entity \<Rightarrow> nat) \<Rightarrow> store \<Rightarrow> string \<Rightarrow> string + report_request \<Rightarrow>
     http_response" where
  "serve_report num_text ck rank st method body =
     (if method = ''OPTIONS'' then Preflight
      else case (case body of Inl m \<Rightarrow> Inl (BodyError m)
                 | Inr rq \<Rightarrow> build_report num_text ck rank st rq) of
             Inl x \<Rightarrow> Failure (message_of x)
           | Inr resp \<Rightarrow> resp)"

section \<open>Faults of a request\<close>

text \<open>
  The error, if any, with which the store answers the query that a request sends for an
  entity: the fault of the store at the filters the aggregator builds from the resolved
  window and the \<open>userId\<close>.
\<close>

definition request_fault :: "clock \<Rightarrow> store \<Rightarrow> report_request \<Rightarrow> entity \<Rightarrow> pg_error option" where
  "request_fault ck st rq en =
     (let (s, e) = resolve_window (ck_zone ck) (ck_window ck) (rq_type rq) (rq_startDate rq)
                     (rq_endDate rq);
          u = rq_userId rq
      in case en of
           Tickets \<Rightarrow> st_fault st Tickets (ticket_filters s e u)
         | Contacts \<Rightarrow> st_fault st Contacts (created_filters s e u)
         | Deals \<Rightarrow> st_fault st Deals (created_filters s e u)
         | Appointments \<Rightarrow> st_fault st Appointments (appointment_filters s e u))"

section \<open>The notification templates\<close>

text \<open>
  \<open>templates\<close> is an object literal of four entries, each with a \<open>subject\<close> in single
  quotes and an \<open>html\<close> and a \<open>text\<close> written as template literals (in backticks).  In
  a template literal a dollar sign before an opening brace starts a substitution.  The
  \<open>weekly_report\<close> entry puts a dollar sign before the placeholder of the revenue, in
  \<open>html\<close> (line 108) and in \<open>text\<close> (line 119): what follows the dollar sign is read as
  the substitution of the object literal \<open>{revenue}\<close>, whose shorthand property reads the
  variable \<open>revenue\<close>, and the second closing brace is text.  A literal is a list of
  pieces: characters, and such substitutions.
\<close>

datatype piece = Chars string | Shorthand string

text \<open>
  The bindings of the module.  The global object of the runtime has no property
  \<open>revenue\<close>, and \<open>templates\<close> itself is not initialised while its literal is
  evaluated.
\<close>

definition module_bindings :: "string list" where
  "module_bindings = [''serve'', ''corsHeaders'', ''renderTemplate'']"

datatype js_error = ReferenceError string | TypeError string

definition error_message :: "js_error \<Rightarrow> string" where
  "error_message x = (case x of ReferenceError m \<Rightarrow> m | TypeError m \<Rightarrow> m)"

text \<open>
  Evaluating a literal, from left to right: a substitution of an unbound variable throws,
  and an object prints as \<open>[object Object]\<close>.
\<close>

fun eval_literal :: "piece list \<Rightarrow> js_error + string" where
  "eval_literal [] = Inr []"
| "eval_literal (Chars s # ps) =
     (case eval_literal ps of Inl x \<Rightarrow> Inl x | Inr r \<Rightarrow> Inr (s @ r))"
| "eval_literal (Shorthand v # ps) =
     (if v \<in> set module_bindings
      then (case eval_literal ps of Inl x \<Rightarrow> Inl x | Inr r \<Rightarrow> Inr (''[object Object]'' @ r))
      else Inl (ReferenceError (v @ '' is not defined'')))"

record email_template =
  et_subject :: string
  et_html :: string
  et_text :: string

text \<open>The entries of an object literal are evaluated in order; the first error ends it.\<close>

fun eval_entries ::
    "(string \<times> piece list \<times> piece list \<times> piece list) list \<Rightarrow> js_error + (string \<times> email_template) list" where
  "eval_entries [] = Inr []"
| "eval_entries ((k, sj, ht, tx) # es) =
     (case eval_literal sj of Inl x \<Rightarrow> Inl x | Inr s \<Rightarrow>
      (case eval_literal ht of Inl x \<Rightarrow> Inl x | Inr h \<Rightarrow>
       (case eval_literal tx of Inl x \<Rightarrow> Inl x | Inr t \<Rightarrow>
        (case eval_entries es of Inl x \<Rightarrow> Inl x
         | Inr r \<Rightarrow> Inr ((k, \<lparr> et_subject = s, et_html = h, et_text = t \<rparr>) # r)))))"

text \<open>Lines 23 to 121, character for character.\<close>

definition welcome_literal :: "string \<times> piece list \<times> piece list \<times> piece list" where
  "welcome_literal =
     (''welcome'',
      [Chars (''Welcome to CommHub!'')],
      [Chars ([CHR 0x0A] @ ''      <div style='' @ [CHR 0x22]
        @ ''font-family: Arial, sans-serif; max-width: 600px; margin: 0 auto'' @ '';''
        @ [CHR 0x22] @ ''>'' @ [CHR 0x0A] @ ''        <h1 style='' @ [CHR 0x22]
        @ ''color: #2563eb;'' @ [CHR 0x22] @ ''>Welcome to CommHub!</h1>'' @ [CHR 0x0A]
        @ ''        <p>Hi {{name}},</p>'' @ [CHR 0x0A]
        @ ''        <p>Thank you for joining CommHub - your complete communi''
        @ ''cation tools platform.</p>'' @ [CHR 0x0A] @ ''        <p>You can now:</p>''
        @ [CHR 0x0A] @ ''        <ul>'' @ [CHR 0x0A]
        @ ''          <li>Manage customer support tickets</li>'' @ [CHR 0x0A]
        @ ''          <li>Track contacts and deals in CRM</li>'' @ [CHR 0x0A]
        @ ''          <li>Schedule appointments and meetings</li>'' @ [CHR 0x0A]
        @ ''          <li>View analytics and reports</li>'' @ [CHR 0x0A] @ ''        </ul>''
        @ [CHR 0x0A] @ ''        <p>Get started by logging into your account:</p>''
        @ [CHR 0x0A] @ ''        <a href='' @ [CHR 0x22] @ ''{{loginUrl}}'' @ [CHR 0x22]
        @ '' style='' @ [CHR 0x22]
        @ ''background-color: #2563eb; color: white; padding: 12px 24px; tex''
        @ ''t-decoration: none; border-radius: 6px; display: inline-block;'' @ [CHR 0x22]
        @ ''>'' @ [CHR 0x0A] @ ''          Login to CommHub'' @ [CHR 0x0A] @ ''        </a>''
        @ [CHR 0x0A] @ ''        <p>Best regards,<br>The CommHub Team</p>'' @ [CHR 0x0A]
        @ ''      </div>'' @ [CHR 0x0A] @ ''    '')],
      [Chars (''Welcome to CommHub!'' @ [CHR 0x0A] @ [CHR 0x0A] @ ''Hi {{name}},''
        @ [CHR 0x0A] @ [CHR 0x0A]
        @ ''Thank you for joining CommHub - your complete communication tool''
        @ ''s platform.'' @ [CHR 0x0A] @ [CHR 0x0A]
        @ ''You can now manage customer support tickets, track contacts and ''
        @ ''deals in CRM, schedule appointments and meetings, and view analy''
        @ ''tics and reports.'' @ [CHR 0x0A] @ [CHR 0x0A]
        @ ''Get started by logging into your account: {{loginUrl}}'' @ [CHR 0x0A]
        @ [CHR 0x0A] @ ''Best regards,'' @ [CHR 0x0A] @ ''The CommHub Team'')])"

definition ticket_created_literal :: "string \<times> piece list \<times> piece list \<times> piece list" where
  "ticket_created_literal =
     (''ticket_created'',
      [Chars (''Support Ticket Created - #{{ticketId}}'')],
      [Chars ([CHR 0x0A] @ ''      <div style='' @ [CHR 0x22]
        @ ''font-family: Arial, sans-serif; max-width: 600px; margin: 0 auto'' @ '';''
        @ [CHR 0x22] @ ''>'' @ [CHR 0x0A] @ ''        <h1 style='' @ [CHR 0x22]
        @ ''color: #2563eb;'' @ [CHR 0x22] @ ''>Support Ticket Created</h1>'' @ [CHR 0x0A]
        @ ''        <p>Hi {{customerName}},</p>'' @ [CHR 0x0A]
        @ ''        <p>Your support ticket has been created successfully.</p'' @ ''>''
        @ [CHR 0x0A] @ ''        <div style='' @ [CHR 0x22]
        @ ''background-color: #f3f4f6; padding: 16px; border-radius: 8px; ma''
        @ ''rgin: 16px 0;'' @ [CHR 0x22] @ ''>'' @ [CHR 0x0A] @ ''          <h3 style=''
        @ [CHR 0x22] @ ''margin: 0 0 8px 0;'' @ [CHR 0x22] @ ''>Ticket Details</h3>''
        @ [CHR 0x0A] @ ''          <p><strong>Ticket ID:</strong> #{{ticketId}}</p>''
        @ [CHR 0x0A] @ ''          <p><strong>Subject:</strong> {{subject}}</p>''
        @ [CHR 0x0A] @ ''          <p><strong>Priority:</strong> {{priority}}</p>''
        @ [CHR 0x0A] @ ''          <p><strong>Status:</strong> {{status}}</p>'' @ [CHR 0x0A]
        @ ''        </div>'' @ [CHR 0x0A]
        @ ''        <p>Our support team will review your ticket and respond ''
        @ ''as soon as possible.</p>'' @ [CHR 0x0A]
        @ ''        <p>You can track the progress of your ticket in your das''
        @ ''hboard.</p>'' @ [CHR 0x0A]
        @ ''        <p>Best regards,<br>CommHub Support Team</p>'' @ [CHR 0x0A]
        @ ''      </div>'' @ [CHR 0x0A] @ ''    '')],
      [Chars (''Support Ticket Created - #{{ticketId}}'' @ [CHR 0x0A] @ [CHR 0x0A]
        @ ''Hi {{customerName}},'' @ [CHR 0x0A] @ [CHR 0x0A]
        @ ''Your support ticket has been created successfully.'' @ [CHR 0x0A] @ [CHR 0x0A]
        @ ''Ticket Details:'' @ [CHR 0x0A] @ ''- Ticket ID: #{{ticketId}}'' @ [CHR 0x0A]
        @ ''- Subject: {{subject}}'' @ [CHR 0x0A] @ ''- Priority: {{priority}}'' @ [CHR 0x0A]
        @ ''- Status: {{status}}'' @ [CHR 0x0A] @ [CHR 0x0A]
        @ ''Our support team will review your ticket and respond as soon as ''
        @ ''possible.'' @ [CHR 0x0A] @ [CHR 0x0A] @ ''Best regards,'' @ [CHR 0x0A]
        @ ''CommHub Support Team'')])"

definition appointment_reminder_literal :: "string \<times> piece list \<times> piece list \<times> piece list" where
  "appointment_reminder_literal =
     (''appointment_reminder'',
      [Chars (''Appointment Reminder - {{title}}'')],
      [Chars ([CHR 0x0A] @ ''      <div style='' @ [CHR 0x22]
        @ ''font-family: Arial, sans-serif; max-width: 600px; margin: 0 auto'' @ '';''
        @ [CHR 0x22] @ ''>'' @ [CHR 0x0A] @ ''        <h1 style='' @ [CHR 0x22]
        @ ''color: #2563eb;'' @ [CHR 0x22] @ ''>Appointment Reminder</h1>'' @ [CHR 0x0A]
        @ ''        <p>Hi {{attendeeName}},</p>'' @ [CHR 0x0A]
        @ ''        <p>This is a reminder about your upcoming appointment.</'' @ ''p>''
        @ [CHR 0x0A] @ ''        <div style='' @ [CHR 0x22]
        @ ''background-color: #f3f4f6; padding: 16px; border-radius: 8px; ma''
        @ ''rgin: 16px 0;'' @ [CHR 0x22] @ ''>'' @ [CHR 0x0A] @ ''          <h3 style=''
        @ [CHR 0x22] @ ''margin: 0 0 8px 0;'' @ [CHR 0x22] @ ''>Appointment Details</h3>''
        @ [CHR 0x0A] @ ''          <p><strong>Title:</strong> {{title}}</p>'' @ [CHR 0x0A]
        @ ''          <p><strong>Date & Time:</strong> {{startTime}}</p>'' @ [CHR 0x0A]
        @ ''          <p><strong>Duration:</strong> {{duration}}</p>'' @ [CHR 0x0A]
        @ ''          <p><strong>Location:</strong> {{location}}</p>'' @ [CHR 0x0A]
        @ ''          {{#if meetingLink}}'' @ [CHR 0x0A]
        @ ''          <p><strong>Meeting Link:</strong> <a href='' @ [CHR 0x22]
        @ ''{{meetingLink}}'' @ [CHR 0x22] @ ''>Join Meeting</a></p>'' @ [CHR 0x0A]
        @ ''          {{/if}}'' @ [CHR 0x0A] @ ''        </div>'' @ [CHR 0x0A]
        @ ''        <p>{{#if description}}{{description}}{{/if}}</p>'' @ [CHR 0x0A]
        @ ''        <p>Please make sure to join on time.</p>'' @ [CHR 0x0A]
        @ ''        <p>Best regards,<br>CommHub Team</p>'' @ [CHR 0x0A] @ ''      </div>''
        @ [CHR 0x0A] @ ''    '')],
      [Chars (''Appointment Reminder - {{title}}'' @ [CHR 0x0A] @ [CHR 0x0A]
        @ ''Hi {{attendeeName}},'' @ [CHR 0x0A] @ [CHR 0x0A]
        @ ''This is a reminder about your upcoming appointment.'' @ [CHR 0x0A] @ [CHR 0x0A]
        @ ''Appointment Details:'' @ [CHR 0x0A] @ ''- Title: {{title}}'' @ [CHR 0x0A]
        @ ''- Date & Time: {{startTime}}'' @ [CHR 0x0A] @ ''- Duration: {{duration}}''
        @ [CHR 0x0A] @ ''- Location: {{location}}'' @ [CHR 0x0A]
        @ ''{{#if meetingLink}}- Meeting Link: {{meetingLink}}'' @ [CHR 0x0A] @ ''{{/if}}''
        @ [CHR 0x0A] @ ''{{#if description}}'' @ [CHR 0x0A] @ ''{{description}}''
        @ [CHR 0x0A] @ ''{{/if}}'' @ [CHR 0x0A] @ ''Please make sure to join on time.''
        @ [CHR 0x0A] @ [CHR 0x0A] @ ''Best regards,'' @ [CHR 0x0A] @ ''CommHub Team'')])"

definition weekly_report_literal :: "string \<times> piece list \<times> piece list \<times> piece list" where
  "weekly_report_literal =
     (''weekly_report'',
      [Chars (''Weekly Performance Report'')],
      [Chars ([CHR 0x0A] @ ''      <div style='' @ [CHR 0x22]
        @ ''font-family: Arial, sans-serif; max-width: 600px; margin: 0 auto'' @ '';''
        @ [CHR 0x22] @ ''>'' @ [CHR 0x0A] @ ''        <h1 style='' @ [CHR 0x22]
        @ ''color: #2563eb;'' @ [CHR 0x22] @ ''>Weekly Performance Report</h1>'' @ [CHR 0x0A]
        @ ''        <p>Hi {{userName}},</p>'' @ [CHR 0x0A] @ ''        <p>Here'' @ [CHR 0x27]
        @ ''s your weekly performance summary:</p>'' @ [CHR 0x0A] @ ''        <div style=''
        @ [CHR 0x22] @ ''background-color: #f3f4f6; padding: 16px; border-radius: 8px; ma''
        @ ''rgin: 16px 0;'' @ [CHR 0x22] @ ''>'' @ [CHR 0x0A] @ ''          <h3 style=''
        @ [CHR 0x22] @ ''margin: 0 0 16px 0;'' @ [CHR 0x22] @ ''>This Week'' @ [CHR 0x27]
        @ ''s Highlights</h3>'' @ [CHR 0x0A] @ ''          <div style='' @ [CHR 0x22]
        @ ''display: grid; grid-template-columns: 1fr 1fr; gap: 16px;'' @ [CHR 0x22] @ ''>''
        @ [CHR 0x0A] @ ''            <div>'' @ [CHR 0x0A]
        @ ''              <p><strong>Tickets Resolved:</strong> {{ticketsRes''
        @ ''olved}}</p>'' @ [CHR 0x0A]
        @ ''              <p><strong>New Contacts:</strong> {{newContacts}}<'' @ ''/p>''
        @ [CHR 0x0A] @ ''            </div>'' @ [CHR 0x0A] @ ''            <div>''
        @ [CHR 0x0A] @ ''              <p><strong>Meetings Held:</strong> {{meetingsHeld}''
        @ ''}</p>'' @ [CHR 0x0A] @ ''              <p><strong>Revenue Generated:</strong> ''),
       Shorthand ''revenue'',
       Chars (''</p>'' @ [CHR 0x0A] @ ''            </div>'' @ [CHR 0x0A]
         @ ''          </div>'' @ [CHR 0x0A] @ ''        </div>'' @ [CHR 0x0A]
         @ ''        <p>Keep up the great work!</p>'' @ [CHR 0x0A] @ ''        <a href=''
         @ [CHR 0x22] @ ''{{dashboardUrl}}'' @ [CHR 0x22] @ '' style='' @ [CHR 0x22]
         @ ''background-color: #2563eb; color: white; padding: 12px 24px; tex''
         @ ''t-decoration: none; border-radius: 6px; display: inline-block;'' @ [CHR 0x22]
         @ ''>'' @ [CHR 0x0A] @ ''          View Full Report'' @ [CHR 0x0A]
         @ ''        </a>'' @ [CHR 0x0A]
         @ ''        <p>Best regards,<br>CommHub Analytics Team</p>'' @ [CHR 0x0A]
         @ ''      </div>'' @ [CHR 0x0A] @ ''    '')],
      [Chars (''Weekly Performance Report'' @ [CHR 0x0A] @ [CHR 0x0A] @ ''Hi {{userName}},''
        @ [CHR 0x0A] @ [CHR 0x0A] @ ''Here'' @ [CHR 0x27]
        @ ''s your weekly performance summary:'' @ [CHR 0x0A] @ [CHR 0x0A] @ ''This Week''
        @ [CHR 0x27] @ ''s Highlights:'' @ [CHR 0x0A]
        @ ''- Tickets Resolved: {{ticketsResolved}}'' @ [CHR 0x0A]
        @ ''- New Contacts: {{newContacts}}'' @ [CHR 0x0A]
        @ ''- Meetings Held: {{meetingsHeld}}'' @ [CHR 0x0A] @ ''- Revenue Generated: ''),
       Shorthand ''revenue'',
       Chars ([CHR 0x0A] @ [CHR 0x0A] @ ''Keep up the great work!'' @ [CHR 0x0A] @ [CHR 0x0A]
         @ ''View Full Report: {{dashboardUrl}}'' @ [CHR 0x0A] @ [CHR 0x0A]
         @ ''Best regards,'' @ [CHR 0x0A] @ ''CommHub Analytics Team'')])"

definition template_literals :: "(string \<times> piece list \<times> piece list \<times> piece list) list" where
  "template_literals =
     [welcome_literal, ticket_created_literal, appointment_reminder_literal, weekly_report_literal]"

definition templates :: "js_error + (string \<times> email_template) list" where
  "templates = eval_entries template_literals"

section \<open>The template renderer\<close>

text \<open>
  The values of \<open>templateData\<close>, a \<open>Record<string, any>\<close> read from JSON, as far as
  the flat mappings of the templates go: \<open>null\<close>, booleans, numbers and strings.
\<close>

datatype json = JNull | JBool bool | JNum number | JStr string

definition truthy :: "json \<Rightarrow> bool" where
  "truthy v = (case v of JNull \<Rightarrow> False | JBool b \<Rightarrow> b | JNum n \<Rightarrow> n \<noteq> 0 | JStr s \<Rightarrow> s \<noteq> [])"

definition to_text :: "(number \<Rightarrow> string) \<Rightarrow> json \<Rightarrow> string" where
  "to_text num_text v =
     (case v of JNull \<Rightarrow> ''null'' | JBool b \<Rightarrow> (if b then ''true'' else ''false'')
      | JNum n \<Rightarrow> num_text n | JStr s \<Rightarrow> s)"

text \<open>
  \<open>obj[key]\<close> on an object made by a literal or by \<open>JSON.parse\<close>: the own property if
  there is one, else the property of that name of \<open>Object.prototype\<close>, else
  \<open>undefined\<close>.  The members of \<open>Object.prototype\<close> are functions, but for
  \<open>__proto__\<close>, which reads as \<open>Object.prototype\<close> itself; all are truthy objects, and
  none has a property \<open>subject\<close>, \<open>html\<close> or \<open>text\<close>.
\<close>

definition object_prototype_names :: "string list" where
  "object_prototype_names =
     [''constructor'', ''__defineGetter__'', ''__defineSetter__'', ''hasOwnProperty'',
      ''__lookupGetter__'', ''__lookupSetter__'', ''isPrototypeOf'', ''propertyIsEnumerable'',
      ''toString'', ''valueOf'', ''__proto__'', ''toLocaleString'']"

datatype 'a property = Undefined | Own 'a | Inherited string

definition get_property :: "(string \<rightharpoonup> 'a) \<Rightarrow> string \<Rightarrow> 'a property" where
  "get_property ob k =
     (case ob k of Some v \<Rightarrow> Own v
      | None \<Rightarrow> (if k \<in> set object_prototype_names then Inherited k else Undefined))"

text \<open>How the runtime (V8) prints a member of \<open>Object.prototype\<close> as a string.\<close>

definition inherited_text :: "string \<Rightarrow> string" where
  "inherited_text k =
     (if k = ''__proto__'' then ''[object Object]''
      else if k = ''constructor'' then ''function Object() { [native code] }''
      else ''function '' @ k @ ''() { [native code] }'')"

text \<open>The word characters of the pattern: letters, digits and the underscore.\<close>

definition is_word :: "char \<Rightarrow> bool" where
  "is_word c =
     (let n = (of_char c :: nat)
      in (48 \<le> n \<and> n \<le> 57) \<or> (65 \<le> n \<and> n \<le> 90) \<or> n = 95 \<or> (97 \<le> n \<and> n \<le> 122))"

text \<open>
  A match of the pattern (two opening braces, one or more word characters, two closing
  braces) at the start of \<open>s\<close>: the key, and what follows the match.  The run of word characters is taken whole, since the character after the key
  must be a closing brace.
\<close>

definition placeholder_at :: "string \<Rightarrow> (string \<times> string) option" where
  "placeholder_at s =
     (if take 2 s = ''{{'' then
        (let w = takeWhile is_word (drop 2 s); r = dropWhile is_word (drop 2 s)
         in if w \<noteq> [] \<and> take 2 r = ''}}'' then Some (w, drop 2 r) else None)
      else None)"

text \<open>
  The callback \<open>(match, key) => data[key] || match\<close>; \<open>replace\<close> turns what it
  returns into a string.
\<close>

definition replacement :: "(number \<Rightarrow> string) \<Rightarrow> (string \<rightharpoonup> json) \<Rightarrow> string \<Rightarrow> string" where
  "replacement num_text dt k =
     (case get_property dt k of
        Own v \<Rightarrow> (if truthy v then to_text num_text v else ''{{'' @ k @ ''}}'')
      | Inherited m \<Rightarrow> inherited_text m
      | Undefined \<Rightarrow> ''{{'' @ k @ ''}}'')"

lemma placeholder_at_shorter:
  "placeholder_at s = Some (k, rest) \<Longrightarrow> length rest < length s"
proof -
  assume a: "placeholder_at s = Some (k, rest)"
  then have r: "rest = drop 2 (dropWhile is_word (drop 2 s))" and s2: "take 2 s = ''{{''"
    by (auto simp: placeholder_at_def Let_def split: if_splits)
  from s2 have "2 \<le> length s"
    by (cases s; cases "tl s") auto
  moreover have "length (dropWhile is_word (drop 2 s)) \<le> length (drop 2 s)"
    by (rule length_dropWhile_le)
  ultimately show ?thesis
    unfolding r by simp
qed

text \<open>
  \<open>template.replace(pattern, callback)\<close> with the flag \<open>g\<close>: the string is scanned from
  the left; at a match the replacement is written and the scan goes on after the match,
  elsewhere the character is kept.
\<close>

function renderTemplate :: "(number \<Rightarrow> string) \<Rightarrow> string \<Rightarrow> (string \<rightharpoonup> json) \<Rightarrow> string" where
  "renderTemplate num_text [] dt = []"
| "renderTemplate num_text (c # cs) dt =
     (case placeholder_at (c # cs) of
        Some (k, rest) \<Rightarrow> replacement num_text dt k @ renderTemplate num_text rest dt
      | None \<Rightarrow> c # renderTemplate num_text cs dt)"
  by pat_completeness auto
termination
  by (relation "measure (\<lambda>(n, s, d). length s)") (auto dest: placeholder_at_shorter)

section \<open>The notification handler\<close>

datatype recipients = One string | Many "string list"

text \<open>
  The request body; \<open>None\<close> is a field the body does not have, and a body without
  \<open>templateData\<close> gets the empty object.
\<close>

record email_request =
  em_to :: recipients
  em_subject :: "string option"
  em_html :: "string option"
  em_text :: "string option"
  em_template :: "string option"
  em_templateData :: "string \<rightharpoonup> json"

record outgoing =
  og_to :: recipients
  og_subject :: "string option"
  og_html :: "string option"
  og_text :: "string option"

text \<open>
  What a request gets: \<open>ok\<close> to a pre-flight; \<open>{ success: true, ..., recipients: n }\<close>
  once the message is logged; status 500 with \<open>{ success: false, error: message }\<close>; or
  no answer of the handler at all, when the module throws while it loads.
\<close>

datatype email_response =
    EmailPreflight
  | EmailSent outgoing nat
  | EmailFailure string
  | ModuleFailure string

text \<open>
  Lines 135 to 171, the body of \<open>try\<close> for a parsed request, over the table \<open>tbl\<close> of
  the own properties of \<open>templates\<close>.  With a member of \<open>Object.prototype\<close> for \<open>tmpl\<close>,
  \<open>tmpl.subject\<close> is \<open>undefined\<close> and \<open>renderTemplate\<close> throws on \<open>template.replace\<close>.
\<close>

definition compose_email ::
    "(string \<times> email_template) list \<Rightarrow> (number \<Rightarrow> string) \<Rightarrow> email_request \<Rightarrow> js_error + email_response" where
  "compose_email tbl num_text rq =
     (let n = (case em_to rq of One a \<Rightarrow> 1 | Many xs \<Rightarrow> length xs);
          plain = \<lparr> og_to = em_to rq, og_subject = em_subject rq, og_html = em_html rq,
                    og_text = em_text rq \<rparr>
      in case em_template rq of
           None \<Rightarrow> Inr (EmailSent plain n)
         | Some t \<Rightarrow>
             (if t = [] then Inr (EmailSent plain n)
              else case get_property (map_of tbl) t of
                     Undefined \<Rightarrow> Inr (EmailSent plain n)
                   | Own tmpl \<Rightarrow>
                       Inr (EmailSent
                              \<lparr> og_to = em_to rq,
                                og_subject = Some (renderTemplate num_text (et_subject tmpl)
                                                     (em_templateData rq)),
                                og_html = Some (renderTemplate num_text (et_html tmpl)
                                                  (em_templateData rq)),
                                og_text = Some (renderTemplate num_text (et_text tmpl)
                                                  (em_templateData rq)) \<rparr>
                              n)
                   | Inherited m \<Rightarrow>
                       Inl (TypeError
                              (''Cannot read properties of undefined (reading '' @ [CHR 0x27]
                               @ ''replace'' @ [CHR 0x27] @ '')''))))"

text \<open>The handler over a table: the pre-flight, then \<open>try\<close> and \<open>catch\<close>.\<close>

definition handle_email ::
    "(string \<times> email_template) list \<Rightarrow> (number \<Rightarrow> string) \<Rightarrow> string \<Rightarrow> string + email_request \<Rightarrow>
     email_response" where
  "handle_email tbl num_text method body =
     (if method = ''OPTIONS'' then EmailPreflight
      else case body of
             Inl m \<Rightarrow> EmailFailure m
           | Inr rq \<Rightarrow>
               (case compose_email tbl num_text rq of
                  Inl x \<Rightarrow> EmailFailure (error_message x)
                | Inr resp \<Rightarrow> resp))"

text \<open>
  The module: \<open>serve\<close> registers the handler after \<open>templates\<close> is evaluated, so an
  error of that evaluation leaves no handler.
\<close>

definition send_email :: "(number \<Rightarrow> string) \<Rightarrow> string \<Rightarrow> string + email_request \<Rightarrow> email_response" where
  "send_email num_text method body =
     (case templates of
        Inl x \<Rightarrow> ModuleFailure (error_message x)
      | Inr tbl \<Rightarrow> handle_email tbl num_text method body)"

section \<open>Concrete inputs\<close>

text \<open>The clock reading 2025-03-31T12:00:00Z.\<close>

definition march31 :: int where
  "march31 = 1743422400000"

text \<open>Forty deals, twenty-three of them won.\<close>

definition sample_deal :: "deal_stage \<Rightarrow> deal" where
  "sample_deal sg =
     \<lparr> d_id = ''d'', d_title = ''t'', d_amount = Some 0, d_stage = Some sg,
       d_contact_id = ''c'', d_created_by = ''u'', d_created_at = None, d_contact = None \<rparr>"

definition forty_deals :: "deal list" where
  "forty_deals = replicate 23 (sample_deal ClosedWon) @ replicate 17 (sample_deal DealLead)"

text \<open>
  A store with three tickets: \<open>t1\<close> is assigned to the agent and belongs to another
  customer, \<open>t2\<close> has the agent as its customer, \<open>t3\<close> has nothing to do with the agent.
  It answers every query, and it takes every timestamp to lie in every window.
\<close>

definition sample_ticket :: "string \<Rightarrow> string \<Rightarrow> string option \<Rightarrow> ticket_row" where
  "sample_ticket i cust asg =
     \<lparr> tr_id = i, tr_subject = ''printer'', tr_message = ''jammed'', tr_status = Some Open,
       tr_priority = Some Medium, tr_customer_id = cust, tr_assigned_to = asg,
       tr_created_at = Some ''2025-01-05T10:00:00+00:00'',
       tr_updated_at = Some ''2025-01-05T10:00:00+00:00'' \<rparr>"

definition sample_store :: store where
  "sample_store =
     \<lparr> st_profiles = [\<lparr> pr_id = ''agent'', pr_name = ''Ann'', pr_email = ''ann@example.org'' \<rparr>],
       st_tickets = [sample_ticket ''t1'' ''alice'' (Some ''agent''),
                     sample_ticket ''t2'' ''agent'' None,
                     sample_ticket ''t3'' ''bob'' (Some ''carol'')],
       st_contacts = [], st_deals = [], st_appointments = [],
       st_le = (\<lambda>a b. True),
       st_fault = (\<lambda>en fs. None) \<rparr>"

text \<open>The same store when the query for the appointments fails.\<close>

definition connection_lost :: pg_error where
  "connection_lost = \<lparr> pe_message = ''connection reset'', pe_code = ''08006'' \<rparr>"

definition failing_store :: store where
  "failing_store =
     sample_store \<lparr> st_fault := (\<lambda>en fs. if en = Appointments then Some connection_lost else None) \<rparr>"

definition sample_clock :: clock where
  "sample_clock =
     \<lparr> ck_zone = utc, ck_window = march31, ck_generated = march31 + 40, ck_stamp = march31 + 41 \<rparr>"

definition sample_request :: report_request where
  "sample_request =
     \<lparr> rq_type = Some ''custom'', rq_startDate = Some ''2025-01-01T00:00:00Z'',
       rq_endDate = Some ''2025-01-31T23:59:59Z'', rq_userId = None, rq_format = Some ''csv'' \<rparr>"

text \<open>
  Two notification requests: one that names no template, and one that names the
  template \<open>toString\<close>, which \<open>templates\<close> does not have.
\<close>

definition plain_request :: email_request where
  "plain_request =
     \<lparr> em_to = One ''ann@example.org'', em_subject = Some ''Hi'', em_html = None,
       em_text = Some ''hello'', em_template = None, em_templateData = Map.empty \<rparr>"

definition toString_request :: email_request where
  "toString_request = plain_request \<lparr> em_template := Some ''toString'' \<rparr>"






section \<open>Properties of the ticket summary\<close>

lemma status_text_inj: "status_text x = status_text y \<Longrightarrow> x = y"
  by (cases x; cases y) simp_all

lemma status_text_not_null: "status_text x \<noteq> ''null''"
  by (cases x) simp_all

lemma status_key_inj: "inj status_key"
proof (rule injI)
  fix a b :: "ticket_status option"
  assume eq: "status_key a = status_key b"
  show "a = b"
  proof (cases a)
    case None
    with eq show ?thesis
      using status_text_not_null by (cases b) (auto simp: status_key_def)
  next
    case (Some x)
    with eq show ?thesis
      using status_text_not_null status_text_inj by (cases b) (auto simp: status_key_def)
  qed
qed

lemma count_status_keys:
  "fst ` set (count_status acc tk) = insert (status_key (t_status tk)) (fst ` set acc)"
  by (simp add: count_status_def dom_update)

lemma count_status_distinct:
  "distinct (map fst acc) \<Longrightarrow> distinct (map fst (count_status acc tk))"
  by (simp add: count_status_def distinct_update)

lemma sum_update_present:
  "distinct (map fst acc) \<Longrightarrow> map_of acc k = Some n \<Longrightarrow>
   sum_list (map snd (AList.update k (Suc n) acc)) = Suc (sum_list (map snd acc))"
  by (induction acc) (auto split: if_splits)

lemma sum_update_absent:
  "map_of acc k = None \<Longrightarrow>
   sum_list (map snd (AList.update k v acc)) = (v::nat) + sum_list (map snd acc)"
  by (induction acc) (auto split: if_splits)

lemma count_status_sum:
  assumes "distinct (map fst acc)"
  shows "sum_list (map snd (count_status acc tk)) = Suc (sum_list (map snd acc))"
proof (cases "map_of acc (status_key (t_status tk))")
  case None
  then show ?thesis
    by (simp add: count_status_def count_or_zero_def sum_update_absent)
next
  case (Some n)
  with assms show ?thesis
    by (simp add: count_status_def count_or_zero_def sum_update_present)
qed

lemma count_status_lookup:
  "map_of (count_status acc tk) k =
     (if k = status_key (t_status tk) then Some (count_or_zero acc k + 1) else map_of acc k)"
  by (simp add: count_status_def update_conv')

lemma foldl_count_status_distinct:
  "distinct (map fst acc) \<Longrightarrow> distinct (map fst (foldl count_status acc d))"
  by (induction d arbitrary: acc) (simp_all add: count_status_distinct)

lemma foldl_count_status_keys:
  "fst ` set (foldl count_status acc d) = fst ` set acc \<union> (status_key \<circ> t_status) ` set d"
  by (induction d arbitrary: acc) (auto simp: count_status_keys)

lemma foldl_count_status_sum:
  "distinct (map fst acc) \<Longrightarrow>
   sum_list (map snd (foldl count_status acc d)) = sum_list (map snd acc) + length d"
  by (induction d arbitrary: acc) (simp_all add: count_status_distinct count_status_sum)

lemma foldl_count_status_lookup:
  "count_or_zero (foldl count_status acc d) k =
     count_or_zero acc k + length (filter (\<lambda>tk. status_key (t_status tk) = k) d)"
proof (induction d arbitrary: acc)
  case Nil
  show ?case by simp
next
  case (Cons tk d)
  have step: "count_or_zero (count_status acc tk) k =
      count_or_zero acc k + (if status_key (t_status tk) = k then 1 else 0)"
    by (auto simp: count_or_zero_def count_status_lookup split: option.splits)
  show ?case
    by (simp add: Cons.IH step)
qed

lemma values_are_counts:
  "distinct (map fst acc) \<Longrightarrow> map snd acc = map (count_or_zero acc) (map fst acc)"
  by (auto simp: count_or_zero_def split: option.splits dest: eq_key_imp_eq_value map_of_SomeD
      simp: map_of_eq_None_iff image_iff)

lemma count_or_zero_empty: "count_or_zero [] k = 0"
  by (simp add: count_or_zero_def)

text \<open>
  Claim C5.  For every list \<open>d\<close> of ticket rows, \<open>byStatus\<close> has exactly one entry per
  distinct status among the rows of \<open>d\<close>: its keys are pairwise distinct and are the
  keys of the statuses that occur in \<open>d\<close>, each value is the number of rows of \<open>d\<close>
  with that status and is never zero (a status that does not occur has no entry), and
  the values add up to \<open>total\<close>, which is the number of rows of \<open>d\<close>.  Distinct
  statuses have distinct keys (\<open>status_key_inj\<close>).  When the response has no rows at
  all (\<open>data\<close> is \<open>null\<close>), \<open>byStatus\<close> is empty and \<open>total\<close> is 0.
\<close>

theorem ticket_byStatus_entries:
  "distinct (map fst (ts_byStatus (summarizeTickets (Some d))))
   \<and> set (map fst (ts_byStatus (summarizeTickets (Some d)))) = status_key ` t_status ` set d
   \<and> map snd (ts_byStatus (summarizeTickets (Some d))) =
       map (\<lambda>k. length (filter (\<lambda>tk. status_key (t_status tk) = k) d))
           (map fst (ts_byStatus (summarizeTickets (Some d))))
   \<and> 0 \<notin> set (map snd (ts_byStatus (summarizeTickets (Some d))))
   \<and> sum_list (map snd (ts_byStatus (summarizeTickets (Some d)))) = length d
   \<and> ts_total (summarizeTickets (Some d)) = length d
   \<and> ts_details (summarizeTickets (Some d)) = d
   \<and> ts_byStatus (summarizeTickets None) = []
   \<and> ts_total (summarizeTickets None) = 0"
proof -
  let ?b = "foldl count_status [] d"
  have b: "ts_byStatus (summarizeTickets (Some d)) = ?b"
    by (simp add: summarizeTickets_def)
  have dist: "distinct (map fst ?b)"
    by (rule foldl_count_status_distinct) simp
  have keys: "set (map fst ?b) = status_key ` t_status ` set d"
    using foldl_count_status_keys [of "[]" d] by (simp add: image_comp)
  have cnt: "count_or_zero ?b k = length (filter (\<lambda>tk. status_key (t_status tk) = k) d)" for k
    by (simp add: foldl_count_status_lookup count_or_zero_empty)
  have vals: "map snd ?b = map (\<lambda>k. length (filter (\<lambda>tk. status_key (t_status tk) = k) d)) (map fst ?b)"
    using values_are_counts [OF dist] by (simp add: cnt)
  have pos: "0 \<notin> set (map snd ?b)"
  proof
    assume "0 \<in> set (map snd ?b)"
    then have "0 \<in> (\<lambda>k. length (filter (\<lambda>tk. status_key (t_status tk) = k) d)) ` set (map fst ?b)"
      using vals by (metis list.set_map)
    then obtain k where k: "k \<in> set (map fst ?b)"
      and z: "filter (\<lambda>tk. status_key (t_status tk) = k) d = []"
      by (auto simp del: set_map)
    from k keys obtain tk where "tk \<in> set d" "status_key (t_status tk) = k" by auto
    then have "filter (\<lambda>tk. status_key (t_status tk) = k) d \<noteq> []"
      by (auto simp: filter_empty_conv)
    with z show False by simp
  qed
  have total: "sum_list (map snd ?b) = length d"
    using foldl_count_status_sum [of "[]" d] by simp
  have rest: "ts_total (summarizeTickets (Some d)) = length d"
    "ts_details (summarizeTickets (Some d)) = d"
    "ts_byStatus (summarizeTickets None) = []"
    "ts_total (summarizeTickets None) = 0"
    by (simp_all add: summarizeTickets_def)
  show ?thesis
    unfolding b using dist keys vals pos total rest by (intro conjI)
qed

section \<open>Properties of the tabular serialization\<close>


lemma split_at_nonempty: "split_at sep s \<noteq> []"
  by (induction s) (auto split: list.splits)










section \<open>Properties of the window\<close>

lemma weekAgo_days: "weekAgo now = now + (- 7) * msPerDay"
  by (simp add: weekAgo_def msPerDay_def)

lemma Day_weekAgo: "Day (weekAgo now) = Day now - 7"
proof -
  have "msPerDay \<noteq> 0" by (simp add: msPerDay_def)
  then have "(now + (- 7) * msPerDay) div msPerDay = - 7 + now div msPerDay"
    by (rule div_mult_self1)
  then show ?thesis
    by (simp add: Day_def weekAgo_days)
qed

lemma TimeWithinDay_weekAgo: "TimeWithinDay (weekAgo now) = TimeWithinDay now"
proof -
  have "(now + (- 7) * msPerDay) mod msPerDay = now mod msPerDay"
    by (rule mod_mult_self1)
  then show ?thesis
    by (simp add: TimeWithinDay_def weekAgo_days)
qed

text \<open>
  Claim C9.  For a \<open>weekly\<close> request the window is the ISO text of two instants, the
  clock reading and the instant seven days of 86400000 milliseconds before it: the
  start lies seven calendar days before the end, at the same time of day.  Both come
  from the one clock reading of the branch.
\<close>

theorem weekly_window_seven_days:
  "resolve_window zn now (Some ''weekly'') s e =
     (Some (toISOString (weekAgo now)), Some (toISOString now))
   \<and> now - weekAgo now = 7 * msPerDay
   \<and> Day now - Day (weekAgo now) = 7
   \<and> TimeWithinDay (weekAgo now) = TimeWithinDay now"
proof -
  have r: "resolve_window zn now (Some ''weekly'') s e =
     (Some (toISOString (weekAgo now)), Some (toISOString now))"
    by (simp add: resolve_window_def)
  have w: "now - weekAgo now = 7 * msPerDay"
    by (simp add: weekAgo_days)
  have d: "Day now - Day (weekAgo now) = 7"
    by (simp add: Day_weekAgo)
  show ?thesis
    using r w d TimeWithinDay_weekAgo [of now] by (simp only: simp_thms)
qed

lemma toISOString_nonempty: "toISOString t \<noteq> []"
  by (simp add: toISOString_def Let_def)

lemma when_set_text: "v \<noteq> [] \<Longrightarrow> when_set (Some v) f = [f v]"
  by (simp add: when_set_def)

lemma when_set_absent: "when_set None f = []"
  by (simp add: when_set_def)

text \<open>
  Claim C7.  A \<open>custom\<close> request keeps the caller's \<open>startDate\<close> and \<open>endDate\<close> as they
  are, present or absent; an absent bound sends no clause for its side, so the window is
  open there, and with both bounds and the \<open>userId\<close> absent every row is fetched.  A
  \<open>weekly\<close> or \<open>monthly\<close> request gets the window computed from the clock, whatever
  bounds the caller sent: the ISO texts of the instant a week or a month ago and of now,
  neither of them empty, so that the queries carry both bounds.
\<close>

theorem window_custom_verbatim:
  "resolve_window zn now (Some ''custom'') s e = (s, e)
   \<and> resolve_window zn now (Some ''weekly'') s e =
       (Some (toISOString (weekAgo now)), Some (toISOString now))
   \<and> resolve_window zn now (Some ''monthly'') s e =
       (Some (toISOString (monthAgo zn now)), Some (toISOString now))
   \<and> toISOString t \<noteq> []
   \<and> ticket_filters (Some (toISOString t)) (Some (toISOString t')) None =
       [Gte ''created_at'' (toISOString t), Lte ''created_at'' (toISOString t')]
   \<and> created_filters (Some (toISOString t)) (Some (toISOString t')) None =
       [Gte ''created_at'' (toISOString t), Lte ''created_at'' (toISOString t')]
   \<and> appointment_filters (Some (toISOString t)) (Some (toISOString t')) None =
       [Gte ''start_time'' (toISOString t), Lte ''start_time'' (toISOString t')]
   \<and> ticket_filters None e None = when_set e (Lte ''created_at'')
   \<and> ticket_filters s None None = when_set s (Gte ''created_at'')
   \<and> created_filters None e None = when_set e (Lte ''created_at'')
   \<and> created_filters s None None = when_set s (Gte ''created_at'')
   \<and> appointment_filters None e None = when_set e (Lte ''start_time'')
   \<and> appointment_filters s None None = when_set s (Gte ''start_time'')
   \<and> matching le ticket_column (ticket_filters None None None) tickets = tickets
   \<and> matching le contact_column (created_filters None None None) contacts = contacts
   \<and> matching le deal_column (created_filters None None None) deals = deals
   \<and> matching le appointment_column (appointment_filters None None None) appointments
       = appointments"
proof -
  have r: "resolve_window zn now (Some ''custom'') s e = (s, e)"
    "resolve_window zn now (Some ''weekly'') s e =
       (Some (toISOString (weekAgo now)), Some (toISOString now))"
    "resolve_window zn now (Some ''monthly'') s e =
       (Some (toISOString (monthAgo zn now)), Some (toISOString now))"
    by (simp_all add: resolve_window_def)
  have both: "ticket_filters (Some (toISOString t)) (Some (toISOString t')) None =
       [Gte ''created_at'' (toISOString t), Lte ''created_at'' (toISOString t')]"
    "created_filters (Some (toISOString t)) (Some (toISOString t')) None =
       [Gte ''created_at'' (toISOString t), Lte ''created_at'' (toISOString t')]"
    "appointment_filters (Some (toISOString t)) (Some (toISOString t')) None =
       [Gte ''start_time'' (toISOString t), Lte ''start_time'' (toISOString t')]"
    by (simp_all add: ticket_filters_def created_filters_def appointment_filters_def
        when_set_text toISOString_nonempty when_set_absent)
  have side: "ticket_filters None e None = when_set e (Lte ''created_at'')"
    "ticket_filters s None None = when_set s (Gte ''created_at'')"
    "created_filters None e None = when_set e (Lte ''created_at'')"
    "created_filters s None None = when_set s (Gte ''created_at'')"
    "appointment_filters None e None = when_set e (Lte ''start_time'')"
    "appointment_filters s None None = when_set s (Gte ''start_time'')"
    by (simp_all add: ticket_filters_def created_filters_def appointment_filters_def
        when_set_absent)
  have all: "matching le ticket_column (ticket_filters None None None) tickets = tickets"
    "matching le contact_column (created_filters None None None) contacts = contacts"
    "matching le deal_column (created_filters None None None) deals = deals"
    "matching le appointment_column (appointment_filters None None None) appointments
       = appointments"
    by (simp_all add: ticket_filters_def created_filters_def appointment_filters_def
        when_set_absent matching_def)
  from r toISOString_nonempty [of t] both side all show ?thesis
    by (intro conjI)
qed

text \<open>
  Claim C1, at the clock reading 2025-03-31T12:00:00Z in a runtime on UTC.  The start of
  the \<open>monthly\<close> window is \<open>new Date(2025, 1, 31)\<close>: February has no day 31, and the
  date runs over into 3 March.  The window starts in the month it ends in, 28 days
  before its end, and not in February.
\<close>

theorem monthly_from_march_31:
  "toISOString march31 = ''2025-03-31T12:00:00.000Z''
   \<and> resolve_window utc march31 (Some ''monthly'') None None =
       (Some ''2025-03-03T00:00:00.000Z'', Some ''2025-03-31T12:00:00.000Z'')
   \<and> getFullYear utc (monthAgo utc march31) = getFullYear utc march31
   \<and> getMonth utc (monthAgo utc march31) = getMonth utc march31
   \<and> getDate utc (monthAgo utc march31) = 3
   \<and> Day march31 - Day (monthAgo utc march31) = 28"
  by code_simp

section \<open>Properties of the deal summary\<close>

text \<open>
  Claim C4, at forty deals of which twenty-three are won.  The exact percentage is 57.5,
  which rounds to 58.  The code divides and multiplies in binary64: \<open>23 / 40\<close> rounds
  to a number just below 0.575, the product with 100 to \<open>57.49999999999999\<close>, and
  \<open>Math.round\<close> gives 57.
\<close>

theorem conversion_rate_23_of_40:
  "ds_total (summarizeDeals (Some forty_deals)) = 40
   \<and> ds_won (summarizeDeals (Some forty_deals)) = 23
   \<and> ds_conversionRate (summarizeDeals (Some forty_deals)) = 57
   \<and> math_round (23 / 40 * 100) = 58"
  by code_simp

section \<open>Properties of the aggregators\<close>

lemma generateTicketReport_eq:
  "generateTicketReport st s e u =
     (case st_fault st Tickets (ticket_filters s e u) of
        Some err \<Rightarrow> Inl err
      | None \<Rightarrow> Inr (summarizeTickets (Some (map (select_ticket (st_profiles st))
                  (matching (st_le st) ticket_column (ticket_filters s e u) (st_tickets st))))))"
  by (simp add: generateTicketReport_def query_tickets_def answer_def Let_def split: option.splits)

lemma generateContactReport_eq:
  "generateContactReport st s e u =
     (case st_fault st Contacts (created_filters s e u) of
        Some err \<Rightarrow> Inl err
      | None \<Rightarrow> Inr (summarizeContacts (Some
                  (matching (st_le st) contact_column (created_filters s e u) (st_contacts st)))))"
  by (simp add: generateContactReport_def query_contacts_def answer_def Let_def split: option.splits)

lemma generateDealReport_eq:
  "generateDealReport st s e u =
     (case st_fault st Deals (created_filters s e u) of
        Some err \<Rightarrow> Inl err
      | None \<Rightarrow> Inr (summarizeDeals (Some
                  (matching (st_le st) deal_column (created_filters s e u) (st_deals st)))))"
  by (simp add: generateDealReport_def query_deals_def answer_def Let_def split: option.splits)

lemma generateAppointmentReport_eq:
  "generateAppointmentReport st s e u =
     (case st_fault st Appointments (appointment_filters s e u) of
        Some err \<Rightarrow> Inl err
      | None \<Rightarrow> Inr (summarizeAppointments (Some
                  (matching (st_le st) appointment_column (appointment_filters s e u)
                     (st_appointments st)))))"
  by (simp add: generateAppointmentReport_def query_appointments_def answer_def Let_def
      split: option.splits)

lemma when_set_actor: "u \<noteq> [] \<Longrightarrow> when_set (Some u) f = [f u]"
  by (simp add: when_set_def)

lemma when_set_None: "when_set None f = []"
  by (simp add: when_set_def)

lemma matching_append:
  "matching le col (fs @ gs) rows = filter (\<lambda>r. list_all (holds le (col r)) gs) (matching le col fs rows)"
  by (induction rows) (auto simp: matching_def)

lemma split_commas_free: "CHR '','' \<notin> set a \<Longrightarrow> split_at (CHR '','') a = [a]"
  by (induction a) auto

lemma split_commas_append:
  "CHR '','' \<notin> set a \<Longrightarrow> split_at (CHR '','') (a @ CHR '','' # b) = a # split_at (CHR '','') b"
  by (induction a) auto

lemma plain_id_chars:
  assumes "plain_id u"
  shows "u \<noteq> []" and "CHR '','' \<notin> set u"
  using assms by (auto simp: plain_id_def reserved_chars_def list_all_iff)

lemma condition_of_customer: "condition_of (''customer_id.eq.'' @ u) = Some (''customer_id'', u)"
  by (simp add: condition_of_def)

lemma condition_of_assigned: "condition_of (''assigned_to.eq.'' @ u) = Some (''assigned_to'', u)"
  by (simp add: condition_of_def)

lemma or_text_conditions:
  assumes "plain_id u"
  shows "split_at (CHR '','') (actor_or_text u) =
           [''customer_id.eq.'' @ u, ''assigned_to.eq.'' @ u]"
proof -
  have c: "CHR '','' \<notin> set u"
    by (rule plain_id_chars(2) [OF assms])
  then have a: "CHR '','' \<notin> set (''customer_id.eq.'' @ u)"
    and b: "CHR '','' \<notin> set (''assigned_to.eq.'' @ u)"
    by simp_all
  have "actor_or_text u = (''customer_id.eq.'' @ u) @ CHR '','' # (''assigned_to.eq.'' @ u)"
    by (simp add: actor_or_text_def)
  then show ?thesis
    by (simp only: split_commas_append [OF a] split_commas_free [OF b])
qed

lemma or_text_holds:
  assumes "plain_id u"
  shows "holds le col (OrText (actor_or_text u)) =
           (col ''customer_id'' = Some u \<or> col ''assigned_to'' = Some u)"
proof -
  have "holds le col (OrText (actor_or_text u)) =
      list_ex (\<lambda>c. case condition_of c of None \<Rightarrow> False | Some (k, v) \<Rightarrow> col k = Some v)
        [''customer_id.eq.'' @ u, ''assigned_to.eq.'' @ u]"
    by (simp only: holds.simps or_text_conditions [OF assms])
  also have "\<dots> = (col ''customer_id'' = Some u \<or> col ''assigned_to'' = Some u)"
    by (simp only: list_ex_Cons_iff list_ex_Nil_iff condition_of_customer condition_of_assigned option.case
        prod.case simp_thms)
  finally show ?thesis .
qed

lemma ticket_actor_rows:
  assumes "plain_id u"
  shows "matching le ticket_column (ticket_filters s e (Some u)) rows =
         filter (\<lambda>r. tr_customer_id r = u \<or> tr_assigned_to r = Some u)
           (matching le ticket_column (ticket_filters s e None) rows)"
proof -
  have "ticket_filters s e (Some u) = ticket_filters s e None @ [OrText (actor_or_text u)]"
    using plain_id_chars(1) [OF assms]
    by (simp add: ticket_filters_def when_set_actor when_set_None)
  moreover have "list_all (holds le (ticket_column r)) [OrText (actor_or_text u)] =
      (tr_customer_id r = u \<or> tr_assigned_to r = Some u)" for r
    by (simp add: or_text_holds [OF assms] ticket_column_def del: holds.simps)
  ultimately show ?thesis
    by (simp only: matching_append)
qed

lemma created_actor:
  assumes "u \<noteq> []"
  shows "created_filters s e (Some u) = created_filters s e None @ [Eq ''created_by'' u]"
    and "appointment_filters s e (Some u) = appointment_filters s e None @ [Eq ''created_by'' u]"
  using assms
  by (simp_all add: created_filters_def appointment_filters_def when_set_actor when_set_None)

lemma contact_actor_rows:
  assumes "u \<noteq> []"
  shows "matching le contact_column (created_filters s e (Some u)) rows =
         filter (\<lambda>r. c_created_by r = u) (matching le contact_column (created_filters s e None) rows)"
  by (simp add: created_actor(1) [OF assms] matching_append contact_column_def)

lemma deal_actor_rows:
  assumes "u \<noteq> []"
  shows "matching le deal_column (created_filters s e (Some u)) rows =
         filter (\<lambda>r. d_created_by r = u) (matching le deal_column (created_filters s e None) rows)"
  by (simp add: created_actor(1) [OF assms] matching_append deal_column_def)

lemma appointment_actor_rows:
  assumes "u \<noteq> []"
  shows "matching le appointment_column (appointment_filters s e (Some u)) rows =
         filter (\<lambda>r. a_created_by r = u)
           (matching le appointment_column (appointment_filters s e None) rows)"
  by (simp add: created_actor(2) [OF assms] matching_append appointment_column_def)

text \<open>
  Claim C6.  With a \<open>userId\<close> set that is an id (not empty, and without a character
  that the filter syntax reserves), the tickets of the report are the rows of the window
  of which the actor is the customer or the assignee: one of the two suffices, so a
  ticket assigned to the actor that belongs to another customer is included.  The
  contacts, deals and appointments of the report are the rows of the window that the
  actor created.
\<close>

theorem actor_filter:
  assumes "plain_id u"
  shows "(case generateTicketReport st s e (Some u) of
            Inl err \<Rightarrow> st_fault st Tickets (ticket_filters s e (Some u)) = Some err
          | Inr sm \<Rightarrow> ts_details sm =
              map (select_ticket (st_profiles st))
                (filter (\<lambda>r. tr_customer_id r = u \<or> tr_assigned_to r = Some u)
                   (matching (st_le st) ticket_column (ticket_filters s e None) (st_tickets st))))
       \<and> (case generateContactReport st s e (Some u) of
            Inl err \<Rightarrow> st_fault st Contacts (created_filters s e (Some u)) = Some err
          | Inr sm \<Rightarrow> cs_details sm =
              filter (\<lambda>r. c_created_by r = u)
                (matching (st_le st) contact_column (created_filters s e None) (st_contacts st)))
       \<and> (case generateDealReport st s e (Some u) of
            Inl err \<Rightarrow> st_fault st Deals (created_filters s e (Some u)) = Some err
          | Inr sm \<Rightarrow> ds_details sm =
              filter (\<lambda>r. d_created_by r = u)
                (matching (st_le st) deal_column (created_filters s e None) (st_deals st)))
       \<and> (case generateAppointmentReport st s e (Some u) of
            Inl err \<Rightarrow> st_fault st Appointments (appointment_filters s e (Some u)) = Some err
          | Inr sm \<Rightarrow> as_details sm =
              filter (\<lambda>r. a_created_by r = u)
                (matching (st_le st) appointment_column (appointment_filters s e None)
                   (st_appointments st)))"
proof -
  have ne: "u \<noteq> []"
    by (rule plain_id_chars(1) [OF assms])
  have t: "(case generateTicketReport st s e (Some u) of
            Inl err \<Rightarrow> st_fault st Tickets (ticket_filters s e (Some u)) = Some err
          | Inr sm \<Rightarrow> ts_details sm =
              map (select_ticket (st_profiles st))
                (filter (\<lambda>r. tr_customer_id r = u \<or> tr_assigned_to r = Some u)
                   (matching (st_le st) ticket_column (ticket_filters s e None) (st_tickets st))))"
    by (simp add: generateTicketReport_eq ticket_actor_rows [OF assms] summarizeTickets_def
        split: option.splits)
  have c: "(case generateContactReport st s e (Some u) of
            Inl err \<Rightarrow> st_fault st Contacts (created_filters s e (Some u)) = Some err
          | Inr sm \<Rightarrow> cs_details sm =
              filter (\<lambda>r. c_created_by r = u)
                (matching (st_le st) contact_column (created_filters s e None) (st_contacts st)))"
    by (simp add: generateContactReport_eq contact_actor_rows [OF ne] summarizeContacts_def
        split: option.splits)
  have d: "(case generateDealReport st s e (Some u) of
            Inl err \<Rightarrow> st_fault st Deals (created_filters s e (Some u)) = Some err
          | Inr sm \<Rightarrow> ds_details sm =
              filter (\<lambda>r. d_created_by r = u)
                (matching (st_le st) deal_column (created_filters s e None) (st_deals st)))"
    by (simp add: generateDealReport_eq deal_actor_rows [OF ne] summarizeDeals_def Let_def
        split: option.splits)
  have a: "(case generateAppointmentReport st s e (Some u) of
            Inl err \<Rightarrow> st_fault st Appointments (appointment_filters s e (Some u)) = Some err
          | Inr sm \<Rightarrow> as_details sm =
              filter (\<lambda>r. a_created_by r = u)
                (matching (st_le st) appointment_column (appointment_filters s e None)
                   (st_appointments st)))"
    by (simp add: generateAppointmentReport_eq appointment_actor_rows [OF ne]
        summarizeAppointments_def Let_def split: option.splits)
  from t c d a show ?thesis by (intro conjI)
qed

theorem actor_filter_witness:
  "plain_id ''agent''
   \<and> (case generateTicketReport sample_store None None (Some ''agent'') of
        Inl err \<Rightarrow> False
      | Inr sm \<Rightarrow> map t_id (ts_details sm) = [''t1'', ''t2'']
          \<and> ts_details sm =
              map (select_ticket (st_profiles sample_store))
                (filter (\<lambda>r. tr_customer_id r = ''agent'' \<or> tr_assigned_to r = Some ''agent'')
                   (matching (st_le sample_store) ticket_column (ticket_filters None None None)
                      (st_tickets sample_store))))"
proof -
  have ne: "plain_id ''agent''"
    by (simp add: plain_id_def reserved_chars_def)
  obtain sm where sm: "generateTicketReport sample_store None None (Some ''agent'') = Inr sm"
    by (simp add: generateTicketReport_eq sample_store_def)
  have rows: "ts_details sm =
      map (select_ticket (st_profiles sample_store))
        (filter (\<lambda>r. tr_customer_id r = ''agent'' \<or> tr_assigned_to r = Some ''agent'')
           (matching (st_le sample_store) ticket_column (ticket_filters None None None)
              (st_tickets sample_store)))"
    using actor_filter [OF ne, of sample_store None None] by (simp add: sm)
  have ids: "map t_id (ts_details sm) = [''t1'', ''t2'']"
    unfolding rows
    by (simp add: sample_store_def matching_def ticket_filters_def when_set_def
        sample_ticket_def select_ticket_def)
  from ne rows ids show ?thesis
    by (simp add: sm)
qed

text \<open>
  The hypothesis matters: a \<open>userId\<close> with a comma spells further conditions, and the
  query returns tickets of which the actor is neither the customer nor the assignee.
\<close>

lemma actor_with_comma:
  "(case generateTicketReport sample_store None None (Some ''agent,subject.eq.printer'') of
      Inl err \<Rightarrow> []
    | Inr sm \<Rightarrow> map t_id (ts_details sm)) = [''t1'', ''t2'', ''t3'']"
  by code_simp

section \<open>Properties of the fan-out\<close>

lemma foldl_pick_mem:
  "foldl (\<lambda>best q. if P q best then q else best) p ps \<in> set (p # ps)"
proof (induction ps arbitrary: p)
  case Nil
  show ?case by simp
next
  case (Cons q ps)
  let ?p' = "if P q p then q else p"
  have "foldl (\<lambda>best q. if P q best then q else best) ?p' ps \<in> set (?p' # ps)"
    by (rule Cons.IH)
  moreover have "set (?p' # ps) \<subseteq> set (p # q # ps)"
    by auto
  ultimately show ?case
    by (simp only: foldl_Cons) blast
qed

lemma earliest_mem: "\<exists>en. (en, earliest rank p ps) \<in> set (p # ps)"
proof -
  let ?r = "foldl (\<lambda>best q. if rank (fst q) < rank (fst best) then q else best) p ps"
  have "?r \<in> set (p # ps)"
    by (rule foldl_pick_mem [where P = "\<lambda>q best. rank (fst q) < rank (fst best)"])
  moreover have "?r = (fst ?r, earliest rank p ps)"
    by (simp add: earliest_def)
  ultimately have "(fst ?r, earliest rank p ps) \<in> set (p # ps)"
    by simp
  then show ?thesis ..
qed

lemma rejected_mem: "(en', e) \<in> set (rejected en r) \<longleftrightarrow> en' = en \<and> r = Inl e"
  by (cases r) (simp_all add: rejected_def, blast)

lemma rejected_empty: "rejected en r = [] \<longleftrightarrow> (\<exists>v. r = Inr v)"
  by (cases r) (simp_all add: rejected_def)

lemma promise_all_rejects:
  assumes "a = Inl ea \<or> b = Inl eb \<or> c = Inl ec \<or> d = Inl ed"
  shows "\<exists>e. promise_all rank a b c d = Inl e
           \<and> (a = Inl e \<or> b = Inl e \<or> c = Inl e \<or> d = Inl e)"
proof -
  let ?rs = "rejected Tickets a @ rejected Contacts b @ rejected Deals c @ rejected Appointments d"
  from assms have "?rs \<noteq> []"
    by (auto simp: rejected_def)
  then obtain p ps where ps: "?rs = p # ps"
    by (cases ?rs) auto
  then have res: "promise_all rank a b c d = Inl (earliest rank p ps)"
    by (simp add: promise_all_def)
  obtain en where "(en, earliest rank p ps) \<in> set ?rs"
    using earliest_mem [of rank p ps] ps by auto
  then have "a = Inl (earliest rank p ps) \<or> b = Inl (earliest rank p ps)
      \<or> c = Inl (earliest rank p ps) \<or> d = Inl (earliest rank p ps)"
    by (auto simp: rejected_mem)
  with res show ?thesis by blast
qed

lemma promise_all_fulfils:
  "promise_all rank (Inr x) (Inr y) (Inr z) (Inr w) = Inr (x, y, z, w)"
  by (simp add: promise_all_def rejected_def)

lemma request_fault_aggregators:
  assumes "resolve_window (ck_zone ck) (ck_window ck) (rq_type rq) (rq_startDate rq) (rq_endDate rq)
             = (s, e)"
  shows "generateTicketReport st s e (rq_userId rq) = Inl err
           \<longleftrightarrow> request_fault ck st rq Tickets = Some err"
    and "generateContactReport st s e (rq_userId rq) = Inl err
           \<longleftrightarrow> request_fault ck st rq Contacts = Some err"
    and "generateDealReport st s e (rq_userId rq) = Inl err
           \<longleftrightarrow> request_fault ck st rq Deals = Some err"
    and "generateAppointmentReport st s e (rq_userId rq) = Inl err
           \<longleftrightarrow> request_fault ck st rq Appointments = Some err"
  using assms
  by (auto simp: request_fault_def generateTicketReport_eq generateContactReport_eq
      generateDealReport_eq generateAppointmentReport_eq split: option.splits)

lemma build_report_rejects:
  assumes "resolve_window (ck_zone ck) (ck_window ck) (rq_type rq) (rq_startDate rq) (rq_endDate rq)
             = (s, e)"
    and "promise_all rank (generateTicketReport st s e (rq_userId rq))
           (generateContactReport st s e (rq_userId rq))
           (generateDealReport st s e (rq_userId rq))
           (generateAppointmentReport st s e (rq_userId rq)) = Inl e'"
  shows "build_report num_text ck rank st rq = Inl (QueryError e')"
  unfolding build_report_def Let_def assms(1) prod.case assms(2) sum.case ..

lemma sample_request_fault:
  "request_fault sample_clock failing_store sample_request en =
     (if en = Appointments then Some connection_lost else None)"
  by (cases en)
     (simp_all add: request_fault_def failing_store_def sample_store_def split: prod.splits)

text \<open>
  Claim C2.  When the store answers the query of any one of the four entities with an
  error, a report request (any method but the pre-flight, with a body that parses) gets
  the failure response: status 500 with the body \<open>{ error: message }\<close>, where the
  message is that of an error one of the four queries met.  The response is never a
  report, in any format.
\<close>

theorem any_fault_aborts:
  assumes "method \<noteq> ''OPTIONS''"
    and "request_fault ck st rq en = Some err"
  shows "\<exists>en' err'. request_fault ck st rq en' = Some err'
           \<and> serve_report num_text ck rank st method (Inr rq) = Failure (pe_message err')"
proof -
  obtain s e where w:
    "resolve_window (ck_zone ck) (ck_window ck) (rq_type rq) (rq_startDate rq) (rq_endDate rq) = (s, e)"
    by (cases "resolve_window (ck_zone ck) (ck_window ck) (rq_type rq) (rq_startDate rq) (rq_endDate rq)")
  note agg = request_fault_aggregators [OF w]
  let ?a = "generateTicketReport st s e (rq_userId rq)"
  let ?b = "generateContactReport st s e (rq_userId rq)"
  let ?c = "generateDealReport st s e (rq_userId rq)"
  let ?d = "generateAppointmentReport st s e (rq_userId rq)"
  have "?a = Inl err \<or> ?b = Inl err \<or> ?c = Inl err \<or> ?d = Inl err"
  proof (cases en)
    case Tickets
    with assms(2) show ?thesis by (simp only: agg(1) simp_thms)
  next
    case Contacts
    with assms(2) show ?thesis by (simp only: agg(2) simp_thms)
  next
    case Deals
    with assms(2) show ?thesis by (simp only: agg(3) simp_thms)
  next
    case Appointments
    with assms(2) show ?thesis by (simp only: agg(4) simp_thms)
  qed
  from promise_all_rejects [OF this] obtain e' where
    pa: "promise_all rank ?a ?b ?c ?d = Inl e'"
    and src: "?a = Inl e' \<or> ?b = Inl e' \<or> ?c = Inl e' \<or> ?d = Inl e'"
    by blast
  from src have flt: "\<exists>en'. request_fault ck st rq en' = Some e'"
    unfolding agg by blast
  have "build_report num_text ck rank st rq = Inl (QueryError e')"
    by (rule build_report_rejects [OF w pa])
  then have "serve_report num_text ck rank st method (Inr rq) = Failure (pe_message e')"
    using assms(1) by (simp add: serve_report_def message_of_def)
  with flt show ?thesis by blast
qed

theorem any_fault_aborts_witness:
  "''POST'' \<noteq> ''OPTIONS''
   \<and> request_fault sample_clock failing_store sample_request Appointments = Some connection_lost
   \<and> request_fault sample_clock failing_store sample_request Tickets = None
   \<and> request_fault sample_clock failing_store sample_request Contacts = None
   \<and> request_fault sample_clock failing_store sample_request Deals = None
   \<and> serve_report (\<lambda>x. []) sample_clock (\<lambda>en. 0) failing_store ''POST'' (Inr sample_request)
         = Failure ''connection reset''"
proof -
  have m: "''POST'' \<noteq> ''OPTIONS''" by simp
  have f: "request_fault sample_clock failing_store sample_request Appointments = Some connection_lost"
    by (simp add: sample_request_fault)
  from any_fault_aborts [OF m f, of "\<lambda>x. []" "\<lambda>en. 0"] obtain en' err' where
    src: "request_fault sample_clock failing_store sample_request en' = Some err'"
    and res: "serve_report (\<lambda>x. []) sample_clock (\<lambda>en. 0) failing_store ''POST'' (Inr sample_request)
                = Failure (pe_message err')"
    by blast
  from src have "err' = connection_lost"
    by (simp add: sample_request_fault split: if_splits)
  then have "pe_message err' = ''connection reset''"
    by (simp add: connection_lost_def)
  with res m f show ?thesis
    by (simp add: sample_request_fault)
qed

section \<open>Properties of the notifications\<close>

text \<open>
  Claim C3, at four small templates.  A placeholder whose name the mapping has is not
  replaced when the value is falsy: the number 0 and the empty string leave it as it
  is.  A placeholder whose name the mapping lacks is replaced when \<open>Object.prototype\<close>
  has a member of that name: \<open>toString\<close> becomes the text of a function.  Otherwise
  the renderer does what the claim says: \<open>name\<close> is replaced, \<open>loginUrl\<close> stays.
\<close>

theorem render_falsy_and_inherited:
  "renderTemplate num_text ''Tickets Resolved: {{ticketsResolved}}'' [''ticketsResolved'' \<mapsto> JNum 0]
     = ''Tickets Resolved: {{ticketsResolved}}''
   \<and> renderTemplate num_text ''Hi {{name}},'' [''name'' \<mapsto> JStr []] = ''Hi {{name}},''
   \<and> renderTemplate num_text ''{{toString}}'' Map.empty = ''function toString() { [native code] }''
   \<and> renderTemplate num_text ''Hi {{name}}, see {{loginUrl}}'' [''name'' \<mapsto> JStr ''Ann'']
     = ''Hi Ann, see {{loginUrl}}''"
  by code_simp

lemma unknown_template_passes:
  assumes "method \<noteq> ''OPTIONS''"
    and "em_template rq = None \<or> em_template rq = Some []
         \<or> (\<exists>t. em_template rq = Some t \<and> map_of tbl t = None \<and> t \<notin> set object_prototype_names)"
  shows "handle_email tbl num_text method (Inr rq) =
           EmailSent \<lparr> og_to = em_to rq, og_subject = em_subject rq, og_html = em_html rq,
                       og_text = em_text rq \<rparr>
             (case em_to rq of One a \<Rightarrow> 1 | Many xs \<Rightarrow> length xs)"
  using assms
  by (auto simp: handle_email_def compose_email_def get_property_def Let_def)

lemma inherited_template_fails:
  assumes "method \<noteq> ''OPTIONS''"
    and "em_template rq = Some t" and "map_of tbl t = None" and "t \<in> set object_prototype_names"
  shows "handle_email tbl num_text method (Inr rq) =
           EmailFailure (''Cannot read properties of undefined (reading '' @ [CHR 0x27]
                         @ ''replace'' @ [CHR 0x27] @ '')'')"
proof -
  from assms(4) have "t \<noteq> []"
    by (auto simp: object_prototype_names_def)
  with assms show ?thesis
    by (simp add: handle_email_def compose_email_def get_property_def Let_def error_message_def)
qed

text \<open>
  Claim C10, at a request without a template and at one that names \<open>toString\<close>.  The
  module throws while it evaluates \<open>templates\<close>, so neither request reaches the
  handler.  Over the table of the three entries that do evaluate, the handler finds
  \<open>Object.prototype.toString\<close> under the name, takes it for a template, and fails
  when it renders the subject, which the function does not have.
\<close>

theorem template_toString_fails:
  "templates = Inl (ReferenceError ''revenue is not defined'')
   \<and> send_email num_text ''POST'' (Inr plain_request) = ModuleFailure ''revenue is not defined''
   \<and> send_email num_text ''POST'' (Inr toString_request) = ModuleFailure ''revenue is not defined''
   \<and> (case eval_entries (take 3 template_literals) of
        Inl x \<Rightarrow> False
      | Inr tbl \<Rightarrow>
          map fst tbl = [''welcome'', ''ticket_created'', ''appointment_reminder'']
          \<and> handle_email tbl num_text ''POST'' (Inr toString_request) =
              EmailFailure (''Cannot read properties of undefined (reading '' @ [CHR 0x27]
                            @ ''replace'' @ [CHR 0x27] @ '')''))"
  by code_simp

end
